theory Spec2Isabelle
  imports Main "HOL-Library.Word"
begin

unbundle bit_operations_syntax

section \<open>Data model of \<^verbatim>\<open>vt100.c\<close>\<close>

text \<open>
  The embedding fixes the usual LP64 data model: \<^verbatim>\<open>size_t\<close> has 64 bits, \<^verbatim>\<open>unsigned\<close>
  and \<^verbatim>\<open>int\<close> have 32 bits, \<^verbatim>\<open>int\<close> is two's complement, and a conversion between signed
  and unsigned of the same width keeps the bits. A value of type \<^verbatim>\<open>int\<close> is a
  \<open>32 word\<close> that is compared with the signed order.
\<close>

type_synonym u8 = "8 word"
type_synonym u32 = "32 word"
type_synonym s32 = "32 word"
type_synonym size_t = "64 word"

text \<open>\<^verbatim>\<open>terminal_state_t\<close>\<close>

datatype terminal_state_t =
    TERMINAL_NORMAL_MODE
  | TERMINAL_CSI
  | TERMINAL_COMMAND
  | TERMINAL_NUMBER_1
  | TERMINAL_NUMBER_2
  | TERMINAL_DECTCEM
  | TERMINAL_STATE_END

text \<open>\<^verbatim>\<open>vt100_attribute_t\<close>: five one-bit flags and two three-bit colour fields.\<close>

record vt100_attribute_t =
  bold :: bool
  under_score :: bool
  blink :: bool
  reverse_video :: bool
  conceal :: bool
  foreground_color :: "3 word"
  background_color :: "3 word"

text \<open>The members of \<^verbatim>\<open>color_t\<close> that the interpreter uses.\<close>

definition BLACK :: "3 word" where
  "BLACK = 0"

definition WHITE :: "3 word" where
  "WHITE = 7"

definition VT100_MAX_SIZE :: nat where
  "VT100_MAX_SIZE = 8192"

text \<open>
  \<^verbatim>\<open>vt100_t\<close>. The two arrays of \<^verbatim>\<open>VT100_MAX_SIZE\<close> elements are lists; a C object
  always has \<open>length (m t) = VT100_MAX_SIZE\<close> and likewise for \<open>attributes\<close>.
  The field \<^verbatim>\<open>size\<close> is called \<open>size_vt\<close> here.
\<close>

record vt100_t =
  cursor :: size_t
  cursor_saved :: size_t
  n1 :: u32
  n2 :: u32
  height :: u32
  width :: u32
  size_vt :: u32
  state :: terminal_state_t
  blinks :: bool
  cursor_on :: bool
  attribute :: vt100_attribute_t
  attributes :: "vt100_attribute_t list"
  m :: "u8 list"
  command_index :: u8

text \<open>
  What stops a call before it returns: a failed \<^verbatim>\<open>assert\<close>, a division or remainder
  by zero, and an access outside one of the two arrays.
\<close>

datatype fault = Assert_Failed | Division_By_Zero | Out_Of_Bounds

definition bind_fault :: "fault + 'a \<Rightarrow> ('a \<Rightarrow> fault + 'b) \<Rightarrow> fault + 'b" where
  "bind_fault r f = (case r of Inl e \<Rightarrow> Inl e | Inr x \<Rightarrow> f x)"

section \<open>Helpers of the interpreter\<close>

text \<open>The macros \<^verbatim>\<open>MAX\<close> and \<^verbatim>\<open>MIN\<close> at the operand types they are used with.\<close>

definition MAX_unsigned :: "u32 \<Rightarrow> u32 \<Rightarrow> u32" where
  "MAX_unsigned X Y = (if X > Y then X else Y)"

definition MIN_unsigned :: "u32 \<Rightarrow> u32 \<Rightarrow> u32" where
  "MIN_unsigned X Y = (if X < Y then X else Y)"

definition MAX_int :: "s32 \<Rightarrow> s32 \<Rightarrow> s32" where
  "MAX_int X Y = (if Y <s X then X else Y)"

text \<open>\<^verbatim>\<open>isdigit\<close> in the C locale, on a byte.\<close>

definition isdigit :: "u8 \<Rightarrow> bool" where
  "isdigit c \<longleftrightarrow> 0x30 \<le> c \<and> c \<le> 0x39"

text \<open>\<^verbatim>\<open>c - '0'\<close>, computed in \<^verbatim>\<open>int\<close> and stored into an \<^verbatim>\<open>unsigned\<close>.\<close>

definition digit_value :: "u8 \<Rightarrow> u32" where
  "digit_value c = ucast c - 0x30"

definition terminal_default_command_sequence :: "vt100_t \<Rightarrow> vt100_t" where
  "terminal_default_command_sequence t = t\<lparr>n1 := 1, n2 := 1, command_index := 0\<rparr>"

definition terminal_at_xy :: "vt100_t \<Rightarrow> u32 \<Rightarrow> u32 \<Rightarrow> bool \<Rightarrow> fault + vt100_t" where
  "terminal_at_xy t x y limit_not_wrap =
     (if limit_not_wrap then
        (let x1 = MAX_unsigned x 0;
             y1 = MAX_unsigned y 0;
             x2 = MIN_unsigned x1 (width t - 1);
             y2 = MIN_unsigned y1 (height t - 1)
         in Inr (t\<lparr>cursor := ucast (y2 * width t + x2)\<rparr>))
      else if width t = 0 \<or> height t = 0 then Inl Division_By_Zero
      else
        (let x1 = x mod width t;
             y1 = y mod height t
         in Inr (t\<lparr>cursor := ucast (y1 * width t + x1)\<rparr>)))"

definition terminal_x_current :: "vt100_t \<Rightarrow> fault + s32" where
  "terminal_x_current t =
     (if width t = 0 then Inl Division_By_Zero
      else Inr (ucast (cursor t mod ucast (width t))))"

definition terminal_y_current :: "vt100_t \<Rightarrow> fault + s32" where
  "terminal_y_current t =
     (if width t = 0 then Inl Division_By_Zero
      else Inr (ucast (cursor t div ucast (width t))))"

text \<open>
  The two sums are \<^verbatim>\<open>int\<close> additions; they wrap here where C leaves the overflow
  undefined (with a parameter of at most four digits and a cursor below 8192
  they do not overflow).
\<close>

definition terminal_at_xy_relative :: "vt100_t \<Rightarrow> s32 \<Rightarrow> s32 \<Rightarrow> bool \<Rightarrow> fault + vt100_t" where
  "terminal_at_xy_relative t x y limit_not_wrap =
     bind_fault (terminal_x_current t) (\<lambda>x_current.
     bind_fault (terminal_y_current t) (\<lambda>y_current.
       terminal_at_xy t (MAX_int (x_current + x) 0) (MAX_int (y_current + y) 0) limit_not_wrap))"

definition terminal_parse_attribute :: "vt100_attribute_t \<Rightarrow> u32 \<Rightarrow> vt100_attribute_t" where
  "terminal_parse_attribute a v =
     (if v = 0 then
        \<lparr>bold = False, under_score = False, blink = False, reverse_video = False,
         conceal = False, foreground_color = WHITE, background_color = BLACK\<rparr>
      else if v = 1 then a\<lparr>bold := True\<rparr>
      else if v = 4 then a\<lparr>under_score := True\<rparr>
      else if v = 5 then a\<lparr>blink := True\<rparr>
      else if v = 7 then a\<lparr>reverse_video := True\<rparr>
      else if v = 8 then a\<lparr>conceal := True\<rparr>
      else
        (let a1 = (if v \<ge> 30 \<and> v \<le> 37 then a\<lparr>foreground_color := ucast (v - 30)\<rparr> else a)
         in (if v \<ge> 40 \<and> v \<le> 47 then a1\<lparr>background_color := ucast (v - 40)\<rparr> else a1)))"

definition vt100_default_attribute :: vt100_attribute_t where
  "vt100_default_attribute =
     \<lparr>bold = False, under_score = False, blink = False, reverse_video = False,
      conceal = False, foreground_color = WHITE, background_color = BLACK\<rparr>"

text \<open>
  The loop of \<^verbatim>\<open>terminal_attribute_block_set\<close> writes the elements
  \<open>0, \<dots>, size - 1\<close> in turn; \<open>block_set_loop i\<close> is the loop from index \<open>i\<close> on.
\<close>

function block_set_loop :: "nat \<Rightarrow> nat \<Rightarrow> vt100_attribute_t \<Rightarrow> vt100_attribute_t list \<Rightarrow> vt100_attribute_t list" where
  "block_set_loop i sz a xs = (if i < sz then block_set_loop (Suc i) sz a (xs[i := a]) else xs)"
  by pat_completeness auto
termination
  by (relation "measure (\<lambda>(i, sz, a, xs). sz - i)") auto

definition terminal_attribute_block_set :: "vt100_t \<Rightarrow> nat \<Rightarrow> vt100_attribute_t \<Rightarrow> fault + vt100_t" where
  "terminal_attribute_block_set t sz a =
     (if sz > VT100_MAX_SIZE then Inl Out_Of_Bounds
      else Inr (t\<lparr>attributes := block_set_loop 0 sz a (attributes t)\<rparr>))"

text \<open>\<^verbatim>\<open>memset(t->m, c, n)\<close>: the first \<open>n\<close> bytes of the glyph array become \<open>c\<close>.\<close>

definition memset_m :: "vt100_t \<Rightarrow> u8 \<Rightarrow> nat \<Rightarrow> fault + vt100_t" where
  "memset_m t c n =
     (if n > VT100_MAX_SIZE then Inl Out_Of_Bounds
      else Inr (t\<lparr>m := replicate n c @ drop n (m t)\<rparr>))"

text \<open>The assignments \<^verbatim>\<open>t->m[i] = c\<close> and \<^verbatim>\<open>t->attributes[i] = a\<close>.\<close>

definition store_m :: "vt100_t \<Rightarrow> size_t \<Rightarrow> u8 \<Rightarrow> fault + vt100_t" where
  "store_m t i c =
     (if unat i \<ge> VT100_MAX_SIZE then Inl Out_Of_Bounds
      else Inr (t\<lparr>m := (m t)[unat i := c]\<rparr>))"

definition store_attributes :: "vt100_t \<Rightarrow> size_t \<Rightarrow> vt100_attribute_t \<Rightarrow> fault + vt100_t" where
  "store_attributes t i a =
     (if unat i \<ge> VT100_MAX_SIZE then Inl Out_Of_Bounds
      else Inr (t\<lparr>attributes := (attributes t)[unat i := a]\<rparr>))"

declare block_set_loop.simps [simp del]

section \<open>The escape-sequence state machine\<close>

abbreviation byte :: "char \<Rightarrow> u8" where
  "byte ch \<equiv> of_char ch"

definition ESCAPE :: u8 where
  "ESCAPE = 27"

definition BACKSPACE :: u8 where
  "BACKSPACE = 8"

definition DELETE :: u8 where
  "DELETE = 127"

text \<open>
  The three ways out of \<^verbatim>\<open>terminal_escape_sequences\<close>: the label \<^verbatim>\<open>success\<close>, the
  label \<^verbatim>\<open>fail\<close>, and a \<^verbatim>\<open>break\<close> that reaches \<^verbatim>\<open>return 0\<close> with the state as
  the case left it. The result pairs the returned \<^verbatim>\<open>int\<close> with the terminal.
\<close>

definition goto_success :: "vt100_t \<Rightarrow> fault + (int \<times> vt100_t)" where
  "goto_success t = Inr (0, t\<lparr>state := TERMINAL_NORMAL_MODE\<rparr>)"

definition goto_fail :: "vt100_t \<Rightarrow> fault + (int \<times> vt100_t)" where
  "goto_fail t = Inr (- 1, t\<lparr>state := TERMINAL_NORMAL_MODE\<rparr>)"

definition break_return :: "vt100_t \<Rightarrow> fault + (int \<times> vt100_t)" where
  "break_return t = Inr (0, t)"

text \<open>\<^verbatim>\<open>case TERMINAL_CSI\<close>\<close>

definition case_TERMINAL_CSI :: "vt100_t \<Rightarrow> u8 \<Rightarrow> fault + (int \<times> vt100_t)" where
  "case_TERMINAL_CSI t c =
     (if c = byte CHR ''['' then break_return (t\<lparr>state := TERMINAL_COMMAND\<rparr>)
      else goto_fail t)"

text \<open>\<^verbatim>\<open>case TERMINAL_COMMAND\<close>\<close>

definition case_TERMINAL_COMMAND :: "vt100_t \<Rightarrow> u8 \<Rightarrow> fault + (int \<times> vt100_t)" where
  "case_TERMINAL_COMMAND t c =
     (if c = byte CHR ''s'' then goto_success (t\<lparr>cursor_saved := cursor t\<rparr>)
      else if c = byte CHR ''n'' then goto_success (t\<lparr>cursor := cursor_saved t\<rparr>)
      else if c = byte CHR ''?'' then
        break_return ((terminal_default_command_sequence t)\<lparr>state := TERMINAL_DECTCEM\<rparr>)
      else if c = byte CHR '';'' then
        break_return ((terminal_default_command_sequence t)\<lparr>state := TERMINAL_NUMBER_2\<rparr>)
      else if isdigit c then
        (let t1 = terminal_default_command_sequence t;
             t2 = t1\<lparr>command_index := command_index t1 + 1\<rparr>;
             t3 = t2\<lparr>n1 := digit_value c\<rparr>
         in break_return (t3\<lparr>state := TERMINAL_NUMBER_1\<rparr>))
      else goto_fail t)"

text \<open>
  \<^verbatim>\<open>case 'J'\<close> of \<^verbatim>\<open>TERMINAL_NUMBER_1\<close>: the inner switch on \<^verbatim>\<open>t->n1\<close> with its
  fall-through from 3 and 2 into 1, and from 1 into 0 when \<^verbatim>\<open>command_index\<close> is zero.
\<close>

definition case_J :: "vt100_t \<Rightarrow> fault + (int \<times> vt100_t)" where
  "case_J t =
     (let t1 = (if n1 t = 3 \<or> n1 t = 2 then t\<lparr>cursor := 0\<rparr> else t)
      in if (n1 t = 3 \<or> n1 t = 2 \<or> n1 t = 1) \<and> command_index t1 \<noteq> 0 then
           bind_fault (memset_m t1 (byte CHR '' '') (unat (size_vt t1))) (\<lambda>t2.
           bind_fault (terminal_attribute_block_set t2 (unat (size_vt t2)) vt100_default_attribute)
             goto_success)
         else if n1 t = 3 \<or> n1 t = 2 \<or> n1 t = 1 \<or> n1 t = 0 then
           bind_fault (memset_m t1 (byte CHR '' '') (unat (cursor t1))) (\<lambda>t2.
           bind_fault (terminal_attribute_block_set t2 (unat (cursor t2)) vt100_default_attribute)
             goto_success)
         else goto_fail t)"

text \<open>\<^verbatim>\<open>case TERMINAL_NUMBER_1\<close>\<close>

definition case_TERMINAL_NUMBER_1 :: "vt100_t \<Rightarrow> u8 \<Rightarrow> fault + (int \<times> vt100_t)" where
  "case_TERMINAL_NUMBER_1 t c =
     (if isdigit c then
        (if command_index t > 3 then goto_fail t
         else break_return
           (t\<lparr>n1 := n1 t * (if command_index t \<noteq> 0 then 10 else 0) + digit_value c,
              command_index := command_index t + 1\<rparr>))
      else if c = byte CHR ''A'' then
        bind_fault (terminal_at_xy_relative t 0 (- n1 t) True) goto_success
      else if c = byte CHR ''B'' then
        bind_fault (terminal_at_xy_relative t 0 (n1 t) True) goto_success
      else if c = byte CHR ''C'' then
        bind_fault (terminal_at_xy_relative t (n1 t) 0 True) goto_success
      else if c = byte CHR ''D'' then
        bind_fault (terminal_at_xy_relative t (- n1 t) 0 True) goto_success
      else if c = byte CHR ''E'' then
        bind_fault (terminal_at_xy t 0 (n1 t) False) goto_success
      else if c = byte CHR ''F'' then
        bind_fault (terminal_at_xy t 0 (- n1 t) False) goto_success
      else if c = byte CHR ''G'' then
        bind_fault (terminal_y_current t) (\<lambda>y_current.
        bind_fault (terminal_at_xy t (n1 t) y_current True) goto_success)
      else if c = byte CHR ''m'' then
        (let t1 = t\<lparr>attribute := terminal_parse_attribute (attribute t) (n1 t)\<rparr>
         in bind_fault (store_attributes t1 (cursor t1) (attribute t1)) goto_success)
      else if c = byte CHR ''i'' then
        (if n1 t = 5 \<or> n1 t = 4 then goto_success t else goto_fail t)
      else if c = byte CHR ''n'' then
        (if n1 t = 6 then goto_success t else goto_fail t)
      else if c = byte CHR ''J'' then case_J t
      else if c = byte CHR '';'' then
        break_return (t\<lparr>command_index := 0, state := TERMINAL_NUMBER_2\<rparr>)
      else goto_fail t)"

text \<open>\<^verbatim>\<open>case TERMINAL_NUMBER_2\<close>\<close>

definition case_TERMINAL_NUMBER_2 :: "vt100_t \<Rightarrow> u8 \<Rightarrow> fault + (int \<times> vt100_t)" where
  "case_TERMINAL_NUMBER_2 t c =
     (if isdigit c then
        (if command_index t > 3 then goto_fail t
         else break_return
           (t\<lparr>n2 := n2 t * (if command_index t \<noteq> 0 then 10 else 0) + digit_value c,
              command_index := command_index t + 1\<rparr>))
      else if c = byte CHR ''m'' then
        (let t1 = t\<lparr>attribute := terminal_parse_attribute (attribute t) (n1 t)\<rparr>;
             t2 = t1\<lparr>attribute := terminal_parse_attribute (attribute t1) (n2 t1)\<rparr>
         in bind_fault (store_attributes t2 (cursor t2) (attribute t2)) goto_success)
      else if c = byte CHR ''H'' \<or> c = byte CHR ''f'' then
        bind_fault (terminal_at_xy t (n2 t) (n1 t) True) goto_success
      else goto_fail t)"

text \<open>\<^verbatim>\<open>case TERMINAL_DECTCEM\<close>\<close>

definition case_TERMINAL_DECTCEM :: "vt100_t \<Rightarrow> u8 \<Rightarrow> fault + (int \<times> vt100_t)" where
  "case_TERMINAL_DECTCEM t c =
     (if isdigit c then
        (if command_index t > 1 then goto_fail t
         else break_return
           (t\<lparr>n1 := n1 t * (if command_index t \<noteq> 0 then 10 else 0) + digit_value c,
              command_index := command_index t + 1\<rparr>))
      else if n1 t \<noteq> 25 then goto_fail t
      else if c = byte CHR ''l'' then goto_success (t\<lparr>cursor_on := False\<rparr>)
      else if c = byte CHR ''h'' then goto_success (t\<lparr>cursor_on := True\<rparr>)
      else goto_fail t)"

text \<open>
  \<^verbatim>\<open>terminal_escape_sequences\<close>: the assertion on the state, then the switch. Every
  value of the datatype is a case label, so the \<^verbatim>\<open>default\<close> label is not reached.
\<close>

definition terminal_escape_sequences :: "vt100_t \<Rightarrow> u8 \<Rightarrow> fault + (int \<times> vt100_t)" where
  "terminal_escape_sequences t c =
     (case state t of
        TERMINAL_NORMAL_MODE \<Rightarrow> Inl Assert_Failed
      | TERMINAL_CSI \<Rightarrow> case_TERMINAL_CSI t c
      | TERMINAL_COMMAND \<Rightarrow> case_TERMINAL_COMMAND t c
      | TERMINAL_NUMBER_1 \<Rightarrow> case_TERMINAL_NUMBER_1 t c
      | TERMINAL_NUMBER_2 \<Rightarrow> case_TERMINAL_NUMBER_2 t c
      | TERMINAL_DECTCEM \<Rightarrow> case_TERMINAL_DECTCEM t c
      | TERMINAL_STATE_END \<Rightarrow> break_return (t\<lparr>state := TERMINAL_NORMAL_MODE\<rparr>))"

section \<open>\<^verbatim>\<open>vt100_update\<close>\<close>

text \<open>The switch on the byte in normal mode.\<close>

definition vt100_update_normal :: "vt100_t \<Rightarrow> u8 \<Rightarrow> fault + vt100_t" where
  "vt100_update_normal t c =
     (if c = ESCAPE then Inr (t\<lparr>state := TERMINAL_CSI\<rparr>)
      else if c = byte CHR 0x09 then
        (let t1 = t\<lparr>cursor := cursor t + 8\<rparr>
         in Inr (t1\<lparr>cursor := cursor t1 AND NOT 7\<rparr>))
      else if c = byte CHR 0x0D \<or> c = byte CHR 0x0A then
        (if width t = 0 then Inl Division_By_Zero
         else
           (let t1 = t\<lparr>cursor := cursor t + ucast (width t)\<rparr>
            in Inr (t1\<lparr>cursor := (cursor t1 div ucast (width t1)) * ucast (width t1)\<rparr>)))
      else if c = DELETE \<or> c = BACKSPACE then
        bind_fault (terminal_at_xy_relative t (- 1) 0 True) (\<lambda>t1.
          store_m t1 (cursor t1) (byte CHR '' ''))
      else if \<not> cursor t < ucast (size_vt t) then Inl Assert_Failed
      else
        bind_fault (store_m t (cursor t) c) (\<lambda>t1.
        bind_fault (store_attributes t1 (cursor t1) (attribute t1)) (\<lambda>t2.
          Inr (t2\<lparr>cursor := cursor t2 + 1\<rparr>))))"

text \<open>The clear on overflow and the reduction of the cursor that follow the switch.\<close>

definition vt100_update_overflow :: "vt100_t \<Rightarrow> fault + vt100_t" where
  "vt100_update_overflow t =
     bind_fault
       (if cursor t \<ge> ucast (size_vt t) then
          bind_fault (terminal_attribute_block_set t (unat (size_vt t)) vt100_default_attribute) (\<lambda>t1.
            memset_m t1 (byte CHR '' '') (unat (size_vt t1)))
        else Inr t)
       (\<lambda>t2. if size_vt t2 = 0 then Inl Division_By_Zero
             else Inr (t2\<lparr>cursor := cursor t2 mod ucast (size_vt t2)\<rparr>))"

definition vt100_update :: "vt100_t \<Rightarrow> u8 \<Rightarrow> fault + vt100_t" where
  "vt100_update t c =
     (if \<not> unat (size_vt t) \<le> VT100_MAX_SIZE then Inl Assert_Failed
      else if \<not> unat (width t * height t) \<le> VT100_MAX_SIZE then Inl Assert_Failed
      else if state t \<noteq> TERMINAL_NORMAL_MODE then
        bind_fault (terminal_escape_sequences t c) (\<lambda>(r, t1).
          Inr (if r \<noteq> 0 then t1\<lparr>state := TERMINAL_NORMAL_MODE\<rparr> else t1))
      else bind_fault (vt100_update_normal t c) vt100_update_overflow)"

text \<open>
  The callers hand each byte they receive to \<^verbatim>\<open>vt100_update\<close>, in order; a fault ends
  the run.
\<close>

fun vt100_update_all :: "vt100_t \<Rightarrow> u8 list \<Rightarrow> fault + vt100_t" where
  "vt100_update_all t [] = Inr t"
| "vt100_update_all t (c # cs) = bind_fault (vt100_update t c) (\<lambda>t1. vt100_update_all t1 cs)"

section \<open>The VGA terminal of the simulator\<close>

text \<open>
  The static initialiser of \<^verbatim>\<open>vga_terminal.vt100\<close>; members it does not name are zero.
\<close>

definition VGA_WIDTH :: u32 where
  "VGA_WIDTH = 80"

definition VGA_HEIGHT :: u32 where
  "VGA_HEIGHT = 40"

definition zero_attribute :: vt100_attribute_t where
  "zero_attribute =
     \<lparr>bold = False, under_score = False, blink = False, reverse_video = False,
      conceal = False, foreground_color = 0, background_color = 0\<rparr>"

definition vga_terminal_vt100 :: vt100_t where
  "vga_terminal_vt100 =
     \<lparr>cursor = 0, cursor_saved = 0, n1 = 1, n2 = 1,
      height = VGA_HEIGHT, width = VGA_WIDTH, size_vt = VGA_WIDTH * VGA_HEIGHT,
      state = TERMINAL_NORMAL_MODE, blinks = False, cursor_on = True,
      attribute = zero_attribute,
      attributes = replicate VT100_MAX_SIZE zero_attribute,
      m = replicate VT100_MAX_SIZE 0,
      command_index = 0\<rparr>"

text \<open>
  \<^verbatim>\<open>vt100_initialize\<close>; its loop over the first \<^verbatim>\<open>size\<close> attributes has the shape of
  the loop of \<^verbatim>\<open>terminal_attribute_block_set\<close>.
\<close>

definition vt100_initialize :: "vt100_t \<Rightarrow> fault + vt100_t" where
  "vt100_initialize v =
     (let v1 = v\<lparr>attribute := zero_attribute\<rparr>;
          v2 = v1\<lparr>attribute := (attribute v1)\<lparr>foreground_color := WHITE\<rparr>\<rparr>;
          v3 = v2\<lparr>attribute := (attribute v2)\<lparr>background_color := BLACK\<rparr>\<rparr>
      in if unat (size_vt v3) > VT100_MAX_SIZE then Inl Out_Of_Bounds
         else Inr (v3\<lparr>attributes := block_set_loop 0 (unat (size_vt v3)) (attribute v3) (attributes v3)\<rparr>))"

text \<open>
  What \<^verbatim>\<open>initialize_rendering\<close> does to the terminal: its \<^verbatim>\<open>memset\<close> sets the first
  \<^verbatim>\<open>size\<close> glyphs to spaces. The rest of the function sets up the window.
\<close>

definition initialize_rendering :: "vt100_t \<Rightarrow> fault + vt100_t" where
  "initialize_rendering v = memset_m v (byte CHR '' '') (unat (size_vt v))"

text \<open>
  \<^verbatim>\<open>main\<close> calls \<^verbatim>\<open>vt100_initialize\<close> and then \<^verbatim>\<open>initialize_rendering\<close> on the VGA
  terminal; after that the bytes that arrive are handed to \<^verbatim>\<open>vt100_update\<close> in order.
\<close>

definition vga_terminal_run :: "u8 list \<Rightarrow> fault + vt100_t" where
  "vga_terminal_run keys =
     bind_fault (vt100_initialize vga_terminal_vt100) (\<lambda>v.
     bind_fault (initialize_rendering v) (\<lambda>v1. vt100_update_all v1 keys))"

section \<open>The FIFO\<close>

text \<open>
  \<^verbatim>\<open>fifo_t\<close>; the field \<^verbatim>\<open>size\<close> is called \<open>size_fifo\<close> here, and \<open>buffer\<close> is the
  allocated block of \<^verbatim>\<open>size\<close> bytes.
\<close>

record fifo_t =
  head :: size_t
  tail :: size_t
  size_fifo :: size_t
  buffer :: "u8 list"

text \<open>
  \<^verbatim>\<open>fifo_new\<close>: \<^verbatim>\<open>allocate_or_die\<close> returns zeroed memory; the allocation is taken to
  succeed.
\<close>

definition fifo_new :: "size_t \<Rightarrow> fault + fifo_t" where
  "fifo_new sz =
     (if \<not> sz \<ge> 2 then Inl Assert_Failed
      else Inr \<lparr>head = 0, tail = 0, size_fifo = sz, buffer = replicate (unat sz) 0\<rparr>)"

definition fifo_is_full :: "fifo_t \<Rightarrow> bool" where
  "fifo_is_full fifo \<longleftrightarrow>
     (head fifo = size_fifo fifo - 1 \<and> tail fifo = 0) \<or> head fifo = tail fifo - 1"

definition fifo_is_empty :: "fifo_t \<Rightarrow> bool" where
  "fifo_is_empty fifo \<longleftrightarrow> head fifo = tail fifo"

definition fifo_count :: "fifo_t \<Rightarrow> size_t" where
  "fifo_count fifo =
     (if fifo_is_empty fifo then 0
      else if fifo_is_full fifo then size_fifo fifo
      else if head fifo < tail fifo then head fifo + (size_fifo fifo - tail fifo)
      else head fifo - tail fifo)"

definition fifo_push :: "fifo_t \<Rightarrow> u8 \<Rightarrow> fault + (size_t \<times> fifo_t)" where
  "fifo_push fifo data =
     (if fifo_is_full fifo then Inr (0, fifo)
      else if unat (head fifo) \<ge> length (buffer fifo) then Inl Out_Of_Bounds
      else
        (let f1 = fifo\<lparr>buffer := (buffer fifo)[unat (head fifo) := data]\<rparr>;
             f2 = f1\<lparr>head := head f1 + 1\<rparr>;
             f3 = (if head f2 = size_fifo f2 then f2\<lparr>head := 0\<rparr> else f2)
         in Inr (1, f3)))"

text \<open>
  \<^verbatim>\<open>fifo_pop\<close> takes the value that \<^verbatim>\<open>*data\<close> holds before the call and returns the
  value it holds afterwards.
\<close>

definition fifo_pop :: "fifo_t \<Rightarrow> u8 \<Rightarrow> fault + (size_t \<times> u8 \<times> fifo_t)" where
  "fifo_pop fifo data =
     (if fifo_is_empty fifo then Inr (0, data, fifo)
      else if unat (tail fifo) \<ge> length (buffer fifo) then Inl Out_Of_Bounds
      else
        (let data1 = buffer fifo ! unat (tail fifo);
             f1 = fifo\<lparr>tail := tail fifo + 1\<rparr>;
             f2 = (if tail f1 = size_fifo f1 then f1\<lparr>tail := 0\<rparr> else f1)
         in Inr (1, data1, f2)))"

text \<open>
  A producer that pushes the bytes of a list in turn, keeping what each call
  returned, and the same on a queue fresh from \<^verbatim>\<open>fifo_new\<close>.
\<close>

fun fifo_push_all :: "fifo_t \<Rightarrow> u8 list \<Rightarrow> fault + (size_t list \<times> fifo_t)" where
  "fifo_push_all fifo [] = Inr ([], fifo)"
| "fifo_push_all fifo (d # ds) =
     bind_fault (fifo_push fifo d) (\<lambda>(r, f1).
     bind_fault (fifo_push_all f1 ds) (\<lambda>(rs, f2). Inr (r # rs, f2)))"

definition fifo_new_push_all :: "size_t \<Rightarrow> u8 list \<Rightarrow> fault + (size_t list \<times> fifo_t)" where
  "fifo_new_push_all sz ds = bind_fault (fifo_new sz) (\<lambda>fifo. fifo_push_all fifo ds)"

section \<open>Well-formed terminals\<close>

text \<open>
  The screen is well-formed when both dimensions are positive, \<^verbatim>\<open>size\<close> is their
  product and the product fits the arrays; the cursors are well-formed when they are
  below \<^verbatim>\<open>size\<close>; the arrays are well-formed when they have their declared length.
\<close>

definition screen_ok :: "vt100_t \<Rightarrow> bool" where
  "screen_ok t \<longleftrightarrow>
     0 < unat (width t) \<and> 0 < unat (height t) \<and>
     unat (size_vt t) = unat (width t) * unat (height t) \<and>
     unat (size_vt t) \<le> VT100_MAX_SIZE"

definition cursor_ok :: "vt100_t \<Rightarrow> bool" where
  "cursor_ok t \<longleftrightarrow>
     unat (cursor t) < unat (size_vt t) \<and> unat (cursor_saved t) < unat (size_vt t)"

definition arrays_ok :: "vt100_t \<Rightarrow> bool" where
  "arrays_ok t \<longleftrightarrow>
     length (m t) = VT100_MAX_SIZE \<and> length (attributes t) = VT100_MAX_SIZE"

section \<open>Escape sequences that end in the label \<^verbatim>\<open>fail\<close>\<close>

text \<open>
  \<open>escape_sequence_fails t cs\<close>: the terminal \<open>t\<close> is inside an escape sequence, and the
  bytes \<open>cs\<close> are handed to \<^verbatim>\<open>terminal_escape_sequences\<close> one after the other; every
  byte but the last is accepted and leaves the sequence open (the function returns 0
  and the state is not normal mode), and on the last byte the function returns a value
  other than 0, which it does only through its label \<^verbatim>\<open>fail\<close>.
\<close>

fun escape_sequence_fails :: "vt100_t \<Rightarrow> u8 list \<Rightarrow> bool" where
  "escape_sequence_fails t [] = False"
| "escape_sequence_fails t (c # cs) =
     (case terminal_escape_sequences t c of
        Inl e \<Rightarrow> False
      | Inr (r, t1) \<Rightarrow>
          if r \<noteq> 0 then cs = []
          else state t1 \<noteq> TERMINAL_NORMAL_MODE \<and> escape_sequence_fails t1 cs)"

section \<open>The bytes behind a parser state\<close>

text \<open>
  \<open>parser_history bs t\<close> relates the bytes \<open>bs\<close> fed so far to the parser state they
  left: in \<open>TERMINAL_NUMBER_1\<close> between one and four digits have been counted, in
  \<open>TERMINAL_CSI\<close> the last byte was ESC, in \<open>TERMINAL_COMMAND\<close> the last
  two were ESC and \<open>[\<close>, and in \<open>TERMINAL_DECTCEM\<close> the bytes end with ESC, \<open>[\<close>, \<open>?\<close>
  and the \<open>command_index\<close> digits (at most two) whose value \<open>n1\<close> holds.
\<close>

definition parser_history :: "u8 list \<Rightarrow> vt100_t \<Rightarrow> bool" where
  "parser_history bs t \<longleftrightarrow>
     (state t = TERMINAL_NUMBER_1 \<longrightarrow> 1 \<le> command_index t \<and> command_index t \<le> 4)
   \<and> (state t = TERMINAL_CSI \<longrightarrow> (\<exists>pre. bs = pre @ [ESCAPE]))
   \<and> (state t = TERMINAL_COMMAND \<longrightarrow> (\<exists>pre. bs = pre @ [ESCAPE, byte CHR ''['']))
   \<and> (state t = TERMINAL_DECTCEM \<longrightarrow>
        (command_index t = 0 \<and> n1 t = 1
           \<and> (\<exists>pre. bs = pre @ [ESCAPE, byte CHR ''['', byte CHR ''?'']))
      \<or> (command_index t = 1
           \<and> (\<exists>pre d. isdigit d \<and> n1 t = digit_value d
                 \<and> bs = pre @ [ESCAPE, byte CHR ''['', byte CHR ''?'', d]))
      \<or> (command_index t = 2
           \<and> (\<exists>pre d e. isdigit d \<and> isdigit e \<and> n1 t = digit_value d * 10 + digit_value e
                 \<and> bs = pre @ [ESCAPE, byte CHR ''['', byte CHR ''?'', d, e])))"

section \<open>Auxiliary facts\<close>

subsection \<open>Words and naturals\<close>

lemma unat_u32_less: "unat (w :: u32) < 4294967296"
  using unsigned_less [of w, where 'a = nat] by simp

lemma unat_ucast_32_64: "unat (ucast (w :: u32) :: size_t) = unat w"
proof -
  have "unat w < 2 ^ 64" using unat_u32_less [of w] by simp
  then show ?thesis
    by (simp add: unsigned_ucast_eq take_bit_nat_eq_self)
qed

lemma MIN_unsigned_le: "unat (MIN_unsigned a b) \<le> unat b"
  by (simp add: MIN_unsigned_def word_less_nat_alt)

lemma unat_minus_1_pos: "0 < unat (w :: u32) \<Longrightarrow> unat (w - 1) = unat w - 1"
  by (metis unat_minus_one unat_eq_zero less_numeral_extra(3))

lemma cell_bound:
  fixes w h x y :: u32
  assumes w: "0 < unat w" and h: "0 < unat h"
    and sz: "unat w * unat h \<le> 8192"
    and x: "unat x \<le> unat w - 1" and y: "unat y \<le> unat h - 1"
  shows "unat (ucast (y * w + x) :: size_t) = unat y * unat w + unat x"
    and "unat y * unat w + unat x < unat w * unat h"
proof -
  have "unat y * unat w \<le> (unat h - 1) * unat w"
    using y by (rule mult_le_mono1)
  also have "\<dots> = unat w * unat h - unat w"
    by (simp add: diff_mult_distrib2 mult.commute)
  finally have yw: "unat y * unat w \<le> unat w * unat h - unat w" .
  have whw: "unat w \<le> unat w * unat h" using h by simp
  show lt: "unat y * unat w + unat x < unat w * unat h"
    using yw x w whw by linarith
  have m: "unat (y * w) = unat y * unat w"
    using lt sz by (simp add: unat_mult_lem [THEN iffD1])
  have "unat (y * w + x) = unat y * unat w + unat x"
    using lt sz m by (simp add: unat_add_lem [THEN iffD1])
  then show "unat (ucast (y * w + x) :: size_t) = unat y * unat w + unat x"
    by (simp add: unat_ucast_32_64)
qed

lemma clamp_cursor_bound:
  assumes "screen_ok t"
  shows "unat (ucast (MIN_unsigned Y (height t - 1) * width t + MIN_unsigned X (width t - 1)) :: size_t)
           < unat (size_vt t)"
proof -
  from assms have w: "0 < unat (width t)" and h: "0 < unat (height t)"
    and sz: "unat (size_vt t) = unat (width t) * unat (height t)"
    and le: "unat (width t) * unat (height t) \<le> 8192"
    by (simp_all add: screen_ok_def VT100_MAX_SIZE_def)
  have x: "unat (MIN_unsigned X (width t - 1)) \<le> unat (width t) - 1"
    using MIN_unsigned_le [of X "width t - 1"] w by (simp add: unat_minus_1_pos)
  have y: "unat (MIN_unsigned Y (height t - 1)) \<le> unat (height t) - 1"
    using MIN_unsigned_le [of Y "height t - 1"] h by (simp add: unat_minus_1_pos)
  from cell_bound [OF w h le x y] sz show ?thesis by simp
qed

lemma wrap_cursor_bound:
  assumes "screen_ok t"
  shows "unat (ucast ((Y mod height t) * width t + X mod width t) :: size_t) < unat (size_vt t)"
proof -
  from assms have w: "0 < unat (width t)" and h: "0 < unat (height t)"
    and sz: "unat (size_vt t) = unat (width t) * unat (height t)"
    and le: "unat (width t) * unat (height t) \<le> 8192"
    by (simp_all add: screen_ok_def VT100_MAX_SIZE_def)
  have "unat (X mod width t) < unat (width t)"
    using w by (simp add: unat_mod)
  then have x: "unat (X mod width t) \<le> unat (width t) - 1" by simp
  have "unat (Y mod height t) < unat (height t)"
    using h by (simp add: unat_mod)
  then have y: "unat (Y mod height t) \<le> unat (height t) - 1" by simp
  from cell_bound [OF w h le x y] sz show ?thesis by simp
qed

subsection \<open>Record updates and the well-formedness predicates\<close>

lemma screen_ok_upd [simp]:
  "screen_ok (t\<lparr>cursor := k\<rparr>) = screen_ok t"
  "screen_ok (t\<lparr>cursor_saved := k\<rparr>) = screen_ok t"
  "screen_ok (t\<lparr>n1 := a\<rparr>) = screen_ok t"
  "screen_ok (t\<lparr>n2 := a\<rparr>) = screen_ok t"
  "screen_ok (t\<lparr>state := s\<rparr>) = screen_ok t"
  "screen_ok (t\<lparr>cursor_on := b\<rparr>) = screen_ok t"
  "screen_ok (t\<lparr>attribute := at\<rparr>) = screen_ok t"
  "screen_ok (t\<lparr>attributes := ats\<rparr>) = screen_ok t"
  "screen_ok (t\<lparr>m := ms\<rparr>) = screen_ok t"
  "screen_ok (t\<lparr>command_index := ci\<rparr>) = screen_ok t"
  by (simp_all add: screen_ok_def)

lemma cursor_ok_upd [simp]:
  "cursor_ok (t\<lparr>n1 := a\<rparr>) = cursor_ok t"
  "cursor_ok (t\<lparr>n2 := a\<rparr>) = cursor_ok t"
  "cursor_ok (t\<lparr>state := s\<rparr>) = cursor_ok t"
  "cursor_ok (t\<lparr>cursor_on := b\<rparr>) = cursor_ok t"
  "cursor_ok (t\<lparr>attribute := at\<rparr>) = cursor_ok t"
  "cursor_ok (t\<lparr>attributes := ats\<rparr>) = cursor_ok t"
  "cursor_ok (t\<lparr>m := ms\<rparr>) = cursor_ok t"
  "cursor_ok (t\<lparr>command_index := ci\<rparr>) = cursor_ok t"
  by (simp_all add: cursor_ok_def)

lemma cursor_ok_cursor:
  "cursor_ok (t\<lparr>cursor := k\<rparr>) \<longleftrightarrow>
     unat k < unat (size_vt t) \<and> unat (cursor_saved t) < unat (size_vt t)"
  "cursor_ok (t\<lparr>cursor_saved := k\<rparr>) \<longleftrightarrow>
     unat (cursor t) < unat (size_vt t) \<and> unat k < unat (size_vt t)"
  by (simp_all add: cursor_ok_def)

lemma cursor_okD:
  "cursor_ok t \<Longrightarrow> unat (cursor t) < unat (size_vt t)"
  "cursor_ok t \<Longrightarrow> unat (cursor_saved t) < unat (size_vt t)"
  by (simp_all add: cursor_ok_def)

lemma screen_ok_size: "screen_ok t \<Longrightarrow> unat (size_vt t) \<le> 8192"
  by (simp add: screen_ok_def VT100_MAX_SIZE_def)

lemma screen_ok_width: "screen_ok t \<Longrightarrow> width t \<noteq> 0"
  by (auto simp: screen_ok_def)

lemma screen_ok_height: "screen_ok t \<Longrightarrow> height t \<noteq> 0"
  by (auto simp: screen_ok_def)

lemma screen_ok_size_pos: "screen_ok t \<Longrightarrow> size_vt t \<noteq> 0"
  by (auto simp: screen_ok_def)

subsection \<open>Cursor positioning on a well-formed screen\<close>

lemma terminal_at_xy_ok:
  assumes "screen_ok t"
  shows "\<exists>k. terminal_at_xy t x y l = Inr (t\<lparr>cursor := k\<rparr>) \<and> unat k < unat (size_vt t)"
proof (cases l)
  case True
  have "terminal_at_xy t x y l =
      Inr (t\<lparr>cursor := ucast (MIN_unsigned (MAX_unsigned y 0) (height t - 1) * width t
                             + MIN_unsigned (MAX_unsigned x 0) (width t - 1))\<rparr>)"
    using True by (simp add: terminal_at_xy_def Let_def)
  with clamp_cursor_bound [OF assms] show ?thesis by blast
next
  case False
  have "terminal_at_xy t x y l =
      Inr (t\<lparr>cursor := ucast (y mod height t * width t + x mod width t)\<rparr>)"
    using False assms
    by (simp add: terminal_at_xy_def Let_def screen_ok_width screen_ok_height)
  with wrap_cursor_bound [OF assms] show ?thesis by blast
qed

lemma terminal_at_xy_relative_eq:
  "width t \<noteq> 0 \<Longrightarrow>
   terminal_at_xy_relative t x y l =
     terminal_at_xy t (MAX_int (ucast (cursor t mod ucast (width t)) + x) 0)
       (MAX_int (ucast (cursor t div ucast (width t)) + y) 0) l"
  by (simp add: terminal_at_xy_relative_def terminal_x_current_def terminal_y_current_def
      bind_fault_def)

lemma terminal_at_xy_relative_ok:
  assumes "screen_ok t"
  shows "\<exists>k. terminal_at_xy_relative t x y l = Inr (t\<lparr>cursor := k\<rparr>) \<and> unat k < unat (size_vt t)"
  using terminal_at_xy_ok [OF assms] assms
  by (simp add: terminal_at_xy_relative_eq screen_ok_width)


lemma terminal_at_xy_clamp_eq:
  "terminal_at_xy t x y True =
     Inr (t\<lparr>cursor := ucast (MIN_unsigned (MAX_unsigned y 0) (height t - 1) * width t
                            + MIN_unsigned (MAX_unsigned x 0) (width t - 1))\<rparr>)"
  by (simp add: terminal_at_xy_def Let_def)

lemma terminal_at_xy_wrap_eq:
  "width t \<noteq> 0 \<Longrightarrow> height t \<noteq> 0 \<Longrightarrow>
   terminal_at_xy t x y False =
     Inr (t\<lparr>cursor := ucast (y mod height t * width t + x mod width t)\<rparr>)"
  by (simp add: terminal_at_xy_def Let_def)

lemma wrap_cursor_bound0:
  "screen_ok t \<Longrightarrow> unat (ucast (Y mod height t * width t) :: size_t) < unat (size_vt t)"
  using wrap_cursor_bound [of t Y 0] by simp

lemma screen_ok_size_gt0: "screen_ok t \<Longrightarrow> 0 < unat (size_vt t)"
  by (simp add: screen_ok_def)

lemmas goto_defs = goto_success_def goto_fail_def break_return_def bind_fault_def

lemmas store_defs = store_m_def store_attributes_def memset_m_def
  terminal_attribute_block_set_def VT100_MAX_SIZE_def

lemmas inv_simps = screen_ok_width screen_ok_height screen_ok_size_pos
  clamp_cursor_bound wrap_cursor_bound wrap_cursor_bound0 screen_ok_size_gt0 isdigit_def cursor_ok_cursor cursor_okD
  terminal_at_xy_relative_eq terminal_at_xy_clamp_eq terminal_at_xy_wrap_eq
  terminal_y_current_def

lemma cursor_lt_max: "screen_ok t \<Longrightarrow> cursor_ok t \<Longrightarrow> unat (cursor t) < 8192"
  using screen_ok_size [of t] cursor_okD(1) [of t] by simp

lemma case_TERMINAL_CSI_inv:
  assumes "screen_ok t" "cursor_ok t"
  shows "\<exists>r t'. case_TERMINAL_CSI t c = Inr (r, t') \<and> screen_ok t' \<and> cursor_ok t'
           \<and> size_vt t' = size_vt t"
  using assms by (simp add: case_TERMINAL_CSI_def goto_defs)

lemma case_TERMINAL_COMMAND_inv:
  assumes "screen_ok t" "cursor_ok t"
  shows "\<exists>r t'. case_TERMINAL_COMMAND t c = Inr (r, t') \<and> screen_ok t' \<and> cursor_ok t'
           \<and> size_vt t' = size_vt t"
  using assms
  by (simp add: case_TERMINAL_COMMAND_def goto_defs terminal_default_command_sequence_def
      Let_def inv_simps)

lemma case_J_inv:
  assumes "screen_ok t" "cursor_ok t"
  shows "\<exists>r t'. case_J t = Inr (r, t') \<and> screen_ok t' \<and> cursor_ok t'
           \<and> size_vt t' = size_vt t"
  using assms cursor_lt_max [OF assms] screen_ok_size [OF assms(1)]
  by (simp add: case_J_def goto_defs store_defs Let_def inv_simps)

lemma case_TERMINAL_NUMBER_1_inv:
  assumes "screen_ok t" "cursor_ok t"
  shows "\<exists>r t'. case_TERMINAL_NUMBER_1 t c = Inr (r, t') \<and> screen_ok t' \<and> cursor_ok t'
           \<and> size_vt t' = size_vt t"
  using assms cursor_lt_max [OF assms] case_J_inv [OF assms]
  by (simp add: case_TERMINAL_NUMBER_1_def goto_defs store_defs Let_def inv_simps)

lemma case_TERMINAL_NUMBER_2_inv:
  assumes "screen_ok t" "cursor_ok t"
  shows "\<exists>r t'. case_TERMINAL_NUMBER_2 t c = Inr (r, t') \<and> screen_ok t' \<and> cursor_ok t'
           \<and> size_vt t' = size_vt t"
  using assms cursor_lt_max [OF assms]
  by (simp add: case_TERMINAL_NUMBER_2_def goto_defs store_defs Let_def inv_simps)

lemma case_TERMINAL_DECTCEM_inv:
  assumes "screen_ok t" "cursor_ok t"
  shows "\<exists>r t'. case_TERMINAL_DECTCEM t c = Inr (r, t') \<and> screen_ok t' \<and> cursor_ok t'
           \<and> size_vt t' = size_vt t"
  using assms
  by (simp add: case_TERMINAL_DECTCEM_def goto_defs)


subsection \<open>Every step keeps a well-formed terminal well-formed\<close>

lemma terminal_escape_sequences_inv:
  assumes "screen_ok t" "cursor_ok t" "state t \<noteq> TERMINAL_NORMAL_MODE"
  shows "\<exists>r t'. terminal_escape_sequences t c = Inr (r, t') \<and> screen_ok t' \<and> cursor_ok t'
           \<and> size_vt t' = size_vt t"
proof (cases "state t")
  case TERMINAL_NORMAL_MODE
  with assms show ?thesis by simp
next
  case TERMINAL_CSI
  with case_TERMINAL_CSI_inv [OF assms(1,2)] show ?thesis
    by (simp add: terminal_escape_sequences_def)
next
  case TERMINAL_COMMAND
  with case_TERMINAL_COMMAND_inv [OF assms(1,2)] show ?thesis
    by (simp add: terminal_escape_sequences_def)
next
  case TERMINAL_NUMBER_1
  with case_TERMINAL_NUMBER_1_inv [OF assms(1,2)] show ?thesis
    by (simp add: terminal_escape_sequences_def)
next
  case TERMINAL_NUMBER_2
  with case_TERMINAL_NUMBER_2_inv [OF assms(1,2)] show ?thesis
    by (simp add: terminal_escape_sequences_def)
next
  case TERMINAL_DECTCEM
  with case_TERMINAL_DECTCEM_inv [OF assms(1,2)] show ?thesis
    by (simp add: terminal_escape_sequences_def)
next
  case TERMINAL_STATE_END
  with assms show ?thesis
    by (simp add: terminal_escape_sequences_def goto_defs)
qed

lemma unat_mod_size:
  "size_vt t \<noteq> 0 \<Longrightarrow> unat ((k :: size_t) mod ucast (size_vt t)) < unat (size_vt t)"
  by (simp add: unat_mod unat_ucast_32_64 unat_gt_0)

lemma cursor_less_size: "cursor t < ucast (size_vt t) \<longleftrightarrow> unat (cursor t) < unat (size_vt t)"
  by (simp add: word_less_nat_alt unat_ucast_32_64)

lemma vt100_update_overflow_inv:
  assumes "screen_ok t" "unat (cursor_saved t) < unat (size_vt t)"
  shows "\<exists>t'. vt100_update_overflow t = Inr t' \<and> screen_ok t' \<and> cursor_ok t'
           \<and> size_vt t' = size_vt t"
  using assms screen_ok_size [OF assms(1)]
  by (simp add: vt100_update_overflow_def goto_defs store_defs inv_simps unat_mod_size)

lemma clamp_cursor_bound_max:
  assumes "screen_ok t"
  shows "\<not> 8192 \<le> unat (ucast (MIN_unsigned Y (height t - 1) * width t
                                  + MIN_unsigned X (width t - 1)) :: size_t)"
  using clamp_cursor_bound [OF assms, of Y X] screen_ok_size [OF assms] by simp

lemma vt100_update_normal_inv:
  assumes "screen_ok t" "cursor_ok t"
  shows "\<exists>t'. vt100_update_normal t c = Inr t' \<and> screen_ok t'
           \<and> unat (cursor_saved t') < unat (size_vt t') \<and> size_vt t' = size_vt t"
  using assms cursor_lt_max [OF assms]
  by (simp add: vt100_update_normal_def goto_defs store_defs inv_simps Let_def cursor_less_size
      clamp_cursor_bound_max ESCAPE_def DELETE_def BACKSPACE_def)

lemma vt100_update_inv:
  assumes "screen_ok t" "cursor_ok t"
  shows "\<exists>t'. vt100_update t c = Inr t' \<and> screen_ok t' \<and> cursor_ok t' \<and> size_vt t' = size_vt t"
proof -
  have a1: "unat (size_vt t) \<le> VT100_MAX_SIZE"
    using assms(1) by (simp add: screen_ok_def)
  have "unat (width t * height t) \<le> unat (width t) * unat (height t)"
    by (simp add: unat_mult_lem unat_word_ariths)
  then have a2: "unat (width t * height t) \<le> VT100_MAX_SIZE"
    using assms(1) by (simp add: screen_ok_def)
  show ?thesis
  proof (cases "state t = TERMINAL_NORMAL_MODE")
    case True
    from vt100_update_normal_inv [OF assms, of c] obtain t1 where
      t1: "vt100_update_normal t c = Inr t1" "screen_ok t1"
        "unat (cursor_saved t1) < unat (size_vt t1)" "size_vt t1 = size_vt t"
      by blast
    from vt100_update_overflow_inv [OF t1(2,3)] t1(1,4) True a1 a2 show ?thesis
      by (simp add: vt100_update_def bind_fault_def)
  next
    case False
    from terminal_escape_sequences_inv [OF assms False, of c] obtain r t1 where
      "terminal_escape_sequences t c = Inr (r, t1)" "screen_ok t1" "cursor_ok t1"
      "size_vt t1 = size_vt t"
      by blast
    with False a1 a2 show ?thesis
      by (simp add: vt100_update_def bind_fault_def)
  qed
qed

lemma vt100_update_all_inv:
  assumes "screen_ok t" "cursor_ok t"
  shows "\<exists>t'. vt100_update_all t bs = Inr t' \<and> screen_ok t' \<and> cursor_ok t'
           \<and> size_vt t' = size_vt t"
  using assms
proof (induction bs arbitrary: t)
  case Nil
  then show ?case by simp
next
  case (Cons c cs)
  from vt100_update_inv [OF Cons.prems, of c] obtain t1 where
    t1: "vt100_update t c = Inr t1" "screen_ok t1" "cursor_ok t1" "size_vt t1 = size_vt t"
    by blast
  from Cons.IH [OF t1(2,3)] t1(1,4) show ?case
    by (simp add: bind_fault_def)
qed

subsection \<open>Steps that leave a sequence open or end it in \<^verbatim>\<open>fail\<close>\<close>

lemma case_TERMINAL_CSI_frame:
  assumes "case_TERMINAL_CSI t c = Inr (r, t1)" "r \<noteq> 0 \<or> state t1 \<noteq> TERMINAL_NORMAL_MODE"
  shows "m t1 = m t \<and> attributes t1 = attributes t \<and> cursor t1 = cursor t
       \<and> cursor_saved t1 = cursor_saved t \<and> attribute t1 = attribute t
       \<and> cursor_on t1 = cursor_on t \<and> blinks t1 = blinks t \<and> width t1 = width t \<and> height t1 = height t
       \<and> size_vt t1 = size_vt t \<and> (r \<noteq> 0 \<longrightarrow> state t1 = TERMINAL_NORMAL_MODE)"
  using assms by (auto simp: case_TERMINAL_CSI_def goto_defs split: if_splits)

lemma case_TERMINAL_COMMAND_frame:
  assumes "case_TERMINAL_COMMAND t c = Inr (r, t1)" "r \<noteq> 0 \<or> state t1 \<noteq> TERMINAL_NORMAL_MODE"
  shows "m t1 = m t \<and> attributes t1 = attributes t \<and> cursor t1 = cursor t
       \<and> cursor_saved t1 = cursor_saved t \<and> attribute t1 = attribute t
       \<and> cursor_on t1 = cursor_on t \<and> blinks t1 = blinks t \<and> width t1 = width t \<and> height t1 = height t
       \<and> size_vt t1 = size_vt t \<and> (r \<noteq> 0 \<longrightarrow> state t1 = TERMINAL_NORMAL_MODE)"
  using assms by (auto simp: case_TERMINAL_COMMAND_def goto_defs terminal_default_command_sequence_def Let_def split: if_splits)

lemma bind_goto_success:
  "bind_fault X goto_success = Inr (r, t1) \<Longrightarrow> r = 0 \<and> state t1 = TERMINAL_NORMAL_MODE"
  by (auto simp: goto_defs split: sum.splits)

lemma bind_bind_goto_success:
  "bind_fault X (\<lambda>y. bind_fault (F y) goto_success) = Inr (r, t1)
     \<Longrightarrow> r = 0 \<and> state t1 = TERMINAL_NORMAL_MODE"
  by (auto simp: goto_defs split: sum.splits)

lemma case_J_frame:
  assumes "case_J t = Inr (r, t1)" "r \<noteq> 0 \<or> state t1 \<noteq> TERMINAL_NORMAL_MODE"
  shows "t1 = t\<lparr>state := TERMINAL_NORMAL_MODE\<rparr> \<and> r \<noteq> 0"
  using assms by (auto simp: case_J_def goto_defs Let_def split: if_splits sum.splits)

lemma case_TERMINAL_NUMBER_1_frame:
  assumes "case_TERMINAL_NUMBER_1 t c = Inr (r, t1)" "r \<noteq> 0 \<or> state t1 \<noteq> TERMINAL_NORMAL_MODE"
  shows "m t1 = m t \<and> attributes t1 = attributes t \<and> cursor t1 = cursor t
       \<and> cursor_saved t1 = cursor_saved t \<and> attribute t1 = attribute t
       \<and> cursor_on t1 = cursor_on t \<and> blinks t1 = blinks t \<and> width t1 = width t \<and> height t1 = height t
       \<and> size_vt t1 = size_vt t \<and> (r \<noteq> 0 \<longrightarrow> state t1 = TERMINAL_NORMAL_MODE)"
  using assms 
  by (auto simp: case_TERMINAL_NUMBER_1_def goto_success_def goto_fail_def break_return_def Let_def 
      dest!: bind_goto_success bind_bind_goto_success case_J_frame split: if_splits)

lemma case_TERMINAL_NUMBER_2_frame:
  assumes "case_TERMINAL_NUMBER_2 t c = Inr (r, t1)" "r \<noteq> 0 \<or> state t1 \<noteq> TERMINAL_NORMAL_MODE"
  shows "m t1 = m t \<and> attributes t1 = attributes t \<and> cursor t1 = cursor t
       \<and> cursor_saved t1 = cursor_saved t \<and> attribute t1 = attribute t
       \<and> cursor_on t1 = cursor_on t \<and> blinks t1 = blinks t \<and> width t1 = width t \<and> height t1 = height t
       \<and> size_vt t1 = size_vt t \<and> (r \<noteq> 0 \<longrightarrow> state t1 = TERMINAL_NORMAL_MODE)"
  using assms 
  by (auto simp: case_TERMINAL_NUMBER_2_def goto_success_def goto_fail_def break_return_def Let_def 
      dest!: bind_goto_success split: if_splits)

lemma case_TERMINAL_DECTCEM_frame:
  assumes "case_TERMINAL_DECTCEM t c = Inr (r, t1)" "r \<noteq> 0 \<or> state t1 \<noteq> TERMINAL_NORMAL_MODE"
  shows "m t1 = m t \<and> attributes t1 = attributes t \<and> cursor t1 = cursor t
       \<and> cursor_saved t1 = cursor_saved t \<and> attribute t1 = attribute t
       \<and> cursor_on t1 = cursor_on t \<and> blinks t1 = blinks t \<and> width t1 = width t \<and> height t1 = height t
       \<and> size_vt t1 = size_vt t \<and> (r \<noteq> 0 \<longrightarrow> state t1 = TERMINAL_NORMAL_MODE)"
  using assms 
  by (auto simp: case_TERMINAL_DECTCEM_def goto_success_def goto_fail_def break_return_def Let_def 
      split: if_splits)


lemma terminal_escape_sequences_frame:
  assumes "terminal_escape_sequences t c = Inr (r, t1)"
    and "r \<noteq> 0 \<or> state t1 \<noteq> TERMINAL_NORMAL_MODE"
  shows "m t1 = m t \<and> attributes t1 = attributes t \<and> cursor t1 = cursor t
       \<and> cursor_saved t1 = cursor_saved t \<and> attribute t1 = attribute t
       \<and> cursor_on t1 = cursor_on t \<and> blinks t1 = blinks t \<and> width t1 = width t \<and> height t1 = height t
       \<and> size_vt t1 = size_vt t \<and> (r \<noteq> 0 \<longrightarrow> state t1 = TERMINAL_NORMAL_MODE)"
proof (cases "state t")
  case TERMINAL_NORMAL_MODE
  with assms show ?thesis by (simp add: terminal_escape_sequences_def)
next
  case TERMINAL_CSI
  with assms case_TERMINAL_CSI_frame [of t c r t1] show ?thesis
    by (simp add: terminal_escape_sequences_def)
next
  case TERMINAL_COMMAND
  with assms case_TERMINAL_COMMAND_frame [of t c r t1] show ?thesis
    by (simp add: terminal_escape_sequences_def)
next
  case TERMINAL_NUMBER_1
  with assms case_TERMINAL_NUMBER_1_frame [of t c r t1] show ?thesis
    by (simp add: terminal_escape_sequences_def)
next
  case TERMINAL_NUMBER_2
  with assms case_TERMINAL_NUMBER_2_frame [of t c r t1] show ?thesis
    by (simp add: terminal_escape_sequences_def)
next
  case TERMINAL_DECTCEM
  with assms case_TERMINAL_DECTCEM_frame [of t c r t1] show ?thesis
    by (simp add: terminal_escape_sequences_def)
next
  case TERMINAL_STATE_END
  with assms show ?thesis
    by (auto simp: terminal_escape_sequences_def break_return_def)
qed

lemma escape_sequence_fails_run:
  assumes "escape_sequence_fails t bs" and "state t \<noteq> TERMINAL_NORMAL_MODE"
    and "unat (size_vt t) \<le> VT100_MAX_SIZE" and "unat (width t * height t) \<le> VT100_MAX_SIZE"
  shows "\<exists>t'. vt100_update_all t bs = Inr t'
       \<and> m t' = m t \<and> attributes t' = attributes t \<and> cursor t' = cursor t
       \<and> cursor_saved t' = cursor_saved t \<and> attribute t' = attribute t
       \<and> cursor_on t' = cursor_on t \<and> state t' = TERMINAL_NORMAL_MODE"
  using assms
proof (induction bs arbitrary: t)
  case Nil
  then show ?case by simp
next
  case (Cons c cs)
  from Cons.prems(1) obtain r t1 where
    step: "terminal_escape_sequences t c = Inr (r, t1)"
    and rest: "if r \<noteq> 0 then cs = []
               else state t1 \<noteq> TERMINAL_NORMAL_MODE \<and> escape_sequence_fails t1 cs"
    by (auto split: sum.splits)
  then have open_or_fail: "r \<noteq> 0 \<or> state t1 \<noteq> TERMINAL_NORMAL_MODE"
    by (auto split: if_splits)
  note fr = terminal_escape_sequences_frame [OF step open_or_fail]
  have upd: "vt100_update t c = Inr (if r \<noteq> 0 then t1\<lparr>state := TERMINAL_NORMAL_MODE\<rparr> else t1)"
    using Cons.prems(2,3,4) step by (simp add: vt100_update_def bind_fault_def)
  show ?case
  proof (cases "r \<noteq> 0")
    case True
    with rest have "cs = []" by simp
    with True upd fr show ?thesis by (simp add: bind_fault_def)
  next
    case False
    with rest have st: "state t1 \<noteq> TERMINAL_NORMAL_MODE" and fl: "escape_sequence_fails t1 cs"
      by simp_all
    from fr Cons.prems(3,4) have d: "unat (size_vt t1) \<le> VT100_MAX_SIZE"
      "unat (width t1 * height t1) \<le> VT100_MAX_SIZE" by simp_all
    from Cons.IH [OF fl st d] False upd fr show ?thesis
      by (auto simp: bind_fault_def)
  qed
qed

lemma screen_ok_asserts:
  assumes "screen_ok t"
  shows "unat (size_vt t) \<le> VT100_MAX_SIZE" and "unat (width t * height t) \<le> VT100_MAX_SIZE"
proof -
  show a1: "unat (size_vt t) \<le> VT100_MAX_SIZE"
    using assms by (simp add: screen_ok_def)
  have "unat (width t * height t) \<le> unat (width t) * unat (height t)"
    by (simp add: unat_mult_lem unat_word_ariths)
  then show "unat (width t * height t) \<le> VT100_MAX_SIZE"
    using assms by (simp add: screen_ok_def)
qed

lemma cursor_mod_size:
  assumes "cursor_ok t"
  shows "cursor t mod ucast (size_vt t) = cursor t"
  using assms by (simp add: mod_word_less cursor_less_size cursor_ok_def)

lemma cursor_not_ge_size:
  assumes "cursor_ok t"
  shows "\<not> ucast (size_vt t) \<le> cursor t"
  using cursor_okD(1) [OF assms] by (simp add: word_le_nat_alt unat_ucast_32_64)

lemma vt100_update_ESCAPE:
  assumes "screen_ok t" and "cursor_ok t" and "state t = TERMINAL_NORMAL_MODE"
  shows "vt100_update t ESCAPE = Inr (t\<lparr>state := TERMINAL_CSI\<rparr>)"
  using assms(3) screen_ok_asserts [OF assms(1)] cursor_mod_size [OF assms(2)]
    cursor_not_ge_size [OF assms(2)] screen_ok_size_pos [OF assms(1)]
  by (simp add: vt100_update_def vt100_update_normal_def vt100_update_overflow_def
      bind_fault_def)

subsection \<open>What a step does to the flags and to the parser\<close>

lemma terminal_at_xy_parser:
  assumes "terminal_at_xy t x y l = Inr t'"
  shows "state t' = state t \<and> cursor_on t' = cursor_on t \<and> blinks t' = blinks t
       \<and> n1 t' = n1 t \<and> command_index t' = command_index t"
  using assms by (auto simp: terminal_at_xy_def Let_def split: if_splits)

lemma terminal_at_xy_relative_parser:
  assumes "terminal_at_xy_relative t x y l = Inr t'"
  shows "state t' = state t \<and> cursor_on t' = cursor_on t \<and> blinks t' = blinks t
       \<and> n1 t' = n1 t \<and> command_index t' = command_index t"
  using assms
  by (auto simp: terminal_at_xy_relative_def terminal_x_current_def terminal_y_current_def
      bind_fault_def dest: terminal_at_xy_parser split: if_splits)

lemma store_parser:
  "store_m t i c = Inr t' \<Longrightarrow>
     state t' = state t \<and> cursor_on t' = cursor_on t \<and> blinks t' = blinks t
       \<and> n1 t' = n1 t \<and> command_index t' = command_index t"
  "store_attributes t i a = Inr t' \<Longrightarrow>
     state t' = state t \<and> cursor_on t' = cursor_on t \<and> blinks t' = blinks t
       \<and> n1 t' = n1 t \<and> command_index t' = command_index t"
  "memset_m t c n = Inr t' \<Longrightarrow>
     state t' = state t \<and> cursor_on t' = cursor_on t \<and> blinks t' = blinks t
       \<and> n1 t' = n1 t \<and> command_index t' = command_index t"
  "terminal_attribute_block_set t n a = Inr t' \<Longrightarrow>
     state t' = state t \<and> cursor_on t' = cursor_on t \<and> blinks t' = blinks t
       \<and> n1 t' = n1 t \<and> command_index t' = command_index t"
  by (auto simp: store_m_def store_attributes_def memset_m_def terminal_attribute_block_set_def
      split: if_splits)

lemma vt100_update_overflow_parser:
  assumes "vt100_update_overflow t = Inr t'"
  shows "state t' = state t \<and> cursor_on t' = cursor_on t \<and> blinks t' = blinks t
       \<and> n1 t' = n1 t \<and> command_index t' = command_index t"
  using assms
  by (auto simp: vt100_update_overflow_def bind_fault_def dest!: store_parser
      split: if_splits sum.splits)

lemma vt100_update_normal_parser:
  assumes "vt100_update_normal t c = Inr t'"
  shows "state t' = (if c = ESCAPE then TERMINAL_CSI else state t)
       \<and> cursor_on t' = cursor_on t \<and> blinks t' = blinks t
       \<and> n1 t' = n1 t \<and> command_index t' = command_index t"
  using assms
  by (auto simp: vt100_update_normal_def bind_fault_def Let_def
      dest!: store_parser terminal_at_xy_relative_parser
      split: if_splits sum.splits)


lemma case_TERMINAL_CSI_parser:
  assumes "case_TERMINAL_CSI t c = Inr (r, t')" and "state t = TERMINAL_CSI"
  shows "blinks t' = blinks t
       \<and> (cursor_on t' = cursor_on t
            \<or> (state t = TERMINAL_DECTCEM \<and> n1 t = 25
                \<and> (c = byte CHR ''h'' \<and> cursor_on t' \<or> c = byte CHR ''l'' \<and> \<not> cursor_on t')))
       \<and> state t' \<noteq> TERMINAL_CSI
       \<and> (state t' = TERMINAL_COMMAND \<longrightarrow> state t = TERMINAL_CSI \<and> c = byte CHR ''['')
       \<and> (state t' = TERMINAL_DECTCEM \<longrightarrow>
             (state t = TERMINAL_COMMAND \<and> c = byte CHR ''?'' \<and> command_index t' = 0 \<and> n1 t' = 1)
           \<or> (state t = TERMINAL_DECTCEM \<and> isdigit c \<and> command_index t \<le> 1
               \<and> command_index t' = command_index t + 1
               \<and> n1 t' = n1 t * (if command_index t \<noteq> 0 then 10 else 0) + digit_value c))
       \<and> (state t' = TERMINAL_NUMBER_1 \<longrightarrow>
             (state t = TERMINAL_COMMAND \<and> command_index t' = 1)
           \<or> (state t = TERMINAL_NUMBER_1 \<and> command_index t \<le> 3
               \<and> command_index t' = command_index t + 1))"
  using assms
  by (auto simp: case_TERMINAL_CSI_def goto_success_def goto_fail_def break_return_def bind_fault_def Let_def 
       split: if_splits sum.splits)

lemma case_TERMINAL_COMMAND_parser:
  assumes "case_TERMINAL_COMMAND t c = Inr (r, t')" and "state t = TERMINAL_COMMAND"
  shows "blinks t' = blinks t
       \<and> (cursor_on t' = cursor_on t
            \<or> (state t = TERMINAL_DECTCEM \<and> n1 t = 25
                \<and> (c = byte CHR ''h'' \<and> cursor_on t' \<or> c = byte CHR ''l'' \<and> \<not> cursor_on t')))
       \<and> state t' \<noteq> TERMINAL_CSI
       \<and> (state t' = TERMINAL_COMMAND \<longrightarrow> state t = TERMINAL_CSI \<and> c = byte CHR ''['')
       \<and> (state t' = TERMINAL_DECTCEM \<longrightarrow>
             (state t = TERMINAL_COMMAND \<and> c = byte CHR ''?'' \<and> command_index t' = 0 \<and> n1 t' = 1)
           \<or> (state t = TERMINAL_DECTCEM \<and> isdigit c \<and> command_index t \<le> 1
               \<and> command_index t' = command_index t + 1
               \<and> n1 t' = n1 t * (if command_index t \<noteq> 0 then 10 else 0) + digit_value c))
       \<and> (state t' = TERMINAL_NUMBER_1 \<longrightarrow>
             (state t = TERMINAL_COMMAND \<and> command_index t' = 1)
           \<or> (state t = TERMINAL_NUMBER_1 \<and> command_index t \<le> 3
               \<and> command_index t' = command_index t + 1))"
  using assms
  by (auto simp: case_TERMINAL_COMMAND_def goto_success_def goto_fail_def break_return_def bind_fault_def Let_def terminal_default_command_sequence_def
       split: if_splits sum.splits)

lemma case_J_parser:
  assumes "case_J t = Inr (r, t')"
  shows "blinks t' = blinks t \<and> cursor_on t' = cursor_on t \<and> state t' = TERMINAL_NORMAL_MODE"
  using assms
  by (auto simp: case_J_def goto_success_def goto_fail_def bind_fault_def Let_def
      dest!: store_parser split: if_splits sum.splits)

lemma case_TERMINAL_NUMBER_1_parser:
  assumes "case_TERMINAL_NUMBER_1 t c = Inr (r, t')" and "state t = TERMINAL_NUMBER_1"
  shows "blinks t' = blinks t
       \<and> (cursor_on t' = cursor_on t
            \<or> (state t = TERMINAL_DECTCEM \<and> n1 t = 25
                \<and> (c = byte CHR ''h'' \<and> cursor_on t' \<or> c = byte CHR ''l'' \<and> \<not> cursor_on t')))
       \<and> state t' \<noteq> TERMINAL_CSI
       \<and> (state t' = TERMINAL_COMMAND \<longrightarrow> state t = TERMINAL_CSI \<and> c = byte CHR ''['')
       \<and> (state t' = TERMINAL_DECTCEM \<longrightarrow>
             (state t = TERMINAL_COMMAND \<and> c = byte CHR ''?'' \<and> command_index t' = 0 \<and> n1 t' = 1)
           \<or> (state t = TERMINAL_DECTCEM \<and> isdigit c \<and> command_index t \<le> 1
               \<and> command_index t' = command_index t + 1
               \<and> n1 t' = n1 t * (if command_index t \<noteq> 0 then 10 else 0) + digit_value c))
       \<and> (state t' = TERMINAL_NUMBER_1 \<longrightarrow>
             (state t = TERMINAL_COMMAND \<and> command_index t' = 1)
           \<or> (state t = TERMINAL_NUMBER_1 \<and> command_index t \<le> 3
               \<and> command_index t' = command_index t + 1))"
  using assms
  by (auto simp: case_TERMINAL_NUMBER_1_def goto_success_def goto_fail_def break_return_def bind_fault_def Let_def terminal_y_current_def
      dest!: store_parser terminal_at_xy_relative_parser terminal_at_xy_parser case_J_parser split: if_splits sum.splits)

lemma case_TERMINAL_NUMBER_2_parser:
  assumes "case_TERMINAL_NUMBER_2 t c = Inr (r, t')" and "state t = TERMINAL_NUMBER_2"
  shows "blinks t' = blinks t
       \<and> (cursor_on t' = cursor_on t
            \<or> (state t = TERMINAL_DECTCEM \<and> n1 t = 25
                \<and> (c = byte CHR ''h'' \<and> cursor_on t' \<or> c = byte CHR ''l'' \<and> \<not> cursor_on t')))
       \<and> state t' \<noteq> TERMINAL_CSI
       \<and> (state t' = TERMINAL_COMMAND \<longrightarrow> state t = TERMINAL_CSI \<and> c = byte CHR ''['')
       \<and> (state t' = TERMINAL_DECTCEM \<longrightarrow>
             (state t = TERMINAL_COMMAND \<and> c = byte CHR ''?'' \<and> command_index t' = 0 \<and> n1 t' = 1)
           \<or> (state t = TERMINAL_DECTCEM \<and> isdigit c \<and> command_index t \<le> 1
               \<and> command_index t' = command_index t + 1
               \<and> n1 t' = n1 t * (if command_index t \<noteq> 0 then 10 else 0) + digit_value c))
       \<and> (state t' = TERMINAL_NUMBER_1 \<longrightarrow>
             (state t = TERMINAL_COMMAND \<and> command_index t' = 1)
           \<or> (state t = TERMINAL_NUMBER_1 \<and> command_index t \<le> 3
               \<and> command_index t' = command_index t + 1))"
  using assms
  by (auto simp: case_TERMINAL_NUMBER_2_def goto_success_def goto_fail_def break_return_def bind_fault_def Let_def 
      dest!: store_parser terminal_at_xy_parser split: if_splits sum.splits)

lemma case_TERMINAL_DECTCEM_parser:
  assumes "case_TERMINAL_DECTCEM t c = Inr (r, t')" and "state t = TERMINAL_DECTCEM"
  shows "blinks t' = blinks t
       \<and> (cursor_on t' = cursor_on t
            \<or> (state t = TERMINAL_DECTCEM \<and> n1 t = 25
                \<and> (c = byte CHR ''h'' \<and> cursor_on t' \<or> c = byte CHR ''l'' \<and> \<not> cursor_on t')))
       \<and> state t' \<noteq> TERMINAL_CSI
       \<and> (state t' = TERMINAL_COMMAND \<longrightarrow> state t = TERMINAL_CSI \<and> c = byte CHR ''['')
       \<and> (state t' = TERMINAL_DECTCEM \<longrightarrow>
             (state t = TERMINAL_COMMAND \<and> c = byte CHR ''?'' \<and> command_index t' = 0 \<and> n1 t' = 1)
           \<or> (state t = TERMINAL_DECTCEM \<and> isdigit c \<and> command_index t \<le> 1
               \<and> command_index t' = command_index t + 1
               \<and> n1 t' = n1 t * (if command_index t \<noteq> 0 then 10 else 0) + digit_value c))
       \<and> (state t' = TERMINAL_NUMBER_1 \<longrightarrow>
             (state t = TERMINAL_COMMAND \<and> command_index t' = 1)
           \<or> (state t = TERMINAL_NUMBER_1 \<and> command_index t \<le> 3
               \<and> command_index t' = command_index t + 1))"
  using assms
  by (auto simp: case_TERMINAL_DECTCEM_def goto_success_def goto_fail_def break_return_def bind_fault_def Let_def not_less
       split: if_splits sum.splits)


lemma terminal_escape_sequences_parser:
  assumes "terminal_escape_sequences t c = Inr (r, t')"
  shows "blinks t' = blinks t
       \<and> (cursor_on t' = cursor_on t
            \<or> (state t = TERMINAL_DECTCEM \<and> n1 t = 25
                \<and> (c = byte CHR ''h'' \<and> cursor_on t' \<or> c = byte CHR ''l'' \<and> \<not> cursor_on t')))
       \<and> state t' \<noteq> TERMINAL_CSI
       \<and> (state t' = TERMINAL_COMMAND \<longrightarrow> state t = TERMINAL_CSI \<and> c = byte CHR ''['')
       \<and> (state t' = TERMINAL_DECTCEM \<longrightarrow>
             (state t = TERMINAL_COMMAND \<and> c = byte CHR ''?'' \<and> command_index t' = 0 \<and> n1 t' = 1)
           \<or> (state t = TERMINAL_DECTCEM \<and> isdigit c \<and> command_index t \<le> 1
               \<and> command_index t' = command_index t + 1
               \<and> n1 t' = n1 t * (if command_index t \<noteq> 0 then 10 else 0) + digit_value c))
       \<and> (state t' = TERMINAL_NUMBER_1 \<longrightarrow>
             (state t = TERMINAL_COMMAND \<and> command_index t' = 1)
           \<or> (state t = TERMINAL_NUMBER_1 \<and> command_index t \<le> 3
               \<and> command_index t' = command_index t + 1))"
proof (cases "state t")
  case TERMINAL_NORMAL_MODE
  with assms show ?thesis by (simp add: terminal_escape_sequences_def)
next
  case TERMINAL_CSI
  with assms case_TERMINAL_CSI_parser [of t c r t'] show ?thesis
    by (simp add: terminal_escape_sequences_def)
next
  case TERMINAL_COMMAND
  with assms case_TERMINAL_COMMAND_parser [of t c r t'] show ?thesis
    by (simp add: terminal_escape_sequences_def)
next
  case TERMINAL_NUMBER_1
  with assms case_TERMINAL_NUMBER_1_parser [of t c r t'] show ?thesis
    by (simp add: terminal_escape_sequences_def)
next
  case TERMINAL_NUMBER_2
  with assms case_TERMINAL_NUMBER_2_parser [of t c r t'] show ?thesis
    by (simp add: terminal_escape_sequences_def)
next
  case TERMINAL_DECTCEM
  with assms case_TERMINAL_DECTCEM_parser [of t c r t'] show ?thesis
    by (simp add: terminal_escape_sequences_def)
next
  case TERMINAL_STATE_END
  with assms show ?thesis
    by (auto simp: terminal_escape_sequences_def break_return_def)
qed

lemma vt100_update_parser:
  assumes "vt100_update t c = Inr t'"
  shows "blinks t' = blinks t
       \<and> (cursor_on t' = cursor_on t
            \<or> (state t = TERMINAL_DECTCEM \<and> n1 t = 25
                \<and> (c = byte CHR ''h'' \<and> cursor_on t' \<or> c = byte CHR ''l'' \<and> \<not> cursor_on t')))
       \<and> (state t' = TERMINAL_CSI \<longrightarrow> state t = TERMINAL_NORMAL_MODE \<and> c = ESCAPE)
       \<and> (state t' = TERMINAL_COMMAND \<longrightarrow> state t = TERMINAL_CSI \<and> c = byte CHR ''['')
       \<and> (state t' = TERMINAL_DECTCEM \<longrightarrow>
             (state t = TERMINAL_COMMAND \<and> c = byte CHR ''?'' \<and> command_index t' = 0 \<and> n1 t' = 1)
           \<or> (state t = TERMINAL_DECTCEM \<and> isdigit c \<and> command_index t \<le> 1
               \<and> command_index t' = command_index t + 1
               \<and> n1 t' = n1 t * (if command_index t \<noteq> 0 then 10 else 0) + digit_value c))
       \<and> (state t' = TERMINAL_NUMBER_1 \<longrightarrow>
             (state t = TERMINAL_COMMAND \<and> command_index t' = 1)
           \<or> (state t = TERMINAL_NUMBER_1 \<and> command_index t \<le> 3
               \<and> command_index t' = command_index t + 1))"
proof (cases "state t = TERMINAL_NORMAL_MODE")
  case True
  with assms obtain t1 where n: "vt100_update_normal t c = Inr t1"
    and ov: "vt100_update_overflow t1 = Inr t'"
    by (auto simp: vt100_update_def bind_fault_def split: if_splits sum.splits)
  from vt100_update_normal_parser [OF n] vt100_update_overflow_parser [OF ov] True
  show ?thesis by (auto split: if_splits)
next
  case False
  with assms obtain r t1 where e: "terminal_escape_sequences t c = Inr (r, t1)"
    and t': "t' = (if r \<noteq> 0 then t1\<lparr>state := TERMINAL_NORMAL_MODE\<rparr> else t1)"
    by (auto simp: vt100_update_def bind_fault_def split: if_splits sum.splits)
  from terminal_escape_sequences_parser [OF e] t' show ?thesis
    by (auto split: if_splits)
qed

subsection \<open>The bytes behind the state \<open>TERMINAL_DECTCEM\<close>\<close>

lemma unat_ucast_8_32: "unat (ucast (c :: u8) :: u32) = unat c"
proof -
  have "unat c < 2 ^ 8" using unsigned_less [of c, where 'a = nat] by simp
  then have "unat c < 2 ^ 32" by simp
  then show ?thesis
    by (simp add: unsigned_ucast_eq take_bit_nat_eq_self)
qed

lemma digit_value_unat:
  assumes "isdigit c"
  shows "48 \<le> unat c" and "unat c \<le> 57" and "unat (digit_value c) = unat c - 48"
proof -
  from assms show a: "48 \<le> unat c" and b: "unat c \<le> 57"
    by (simp_all add: isdigit_def word_le_nat_alt)
  have "(48 :: u32) \<le> ucast c"
    using a by (simp add: word_le_nat_alt unat_ucast_8_32)
  then have "unat (ucast c - (48 :: u32)) = unat (ucast c :: u32) - unat (48 :: u32)"
    by (rule unat_sub)
  then show "unat (digit_value c) = unat c - 48"
    by (simp add: digit_value_def unat_ucast_8_32)
qed

lemma digit_value_not_25:
  assumes "isdigit d"
  shows "digit_value d \<noteq> 25"
proof
  assume "digit_value d = 25"
  then have "unat (digit_value d) = 25" by simp
  with digit_value_unat [OF assms] show False by simp
qed

lemma two_digits_25:
  assumes d: "isdigit d" and e: "isdigit e"
    and v: "digit_value d * 10 + digit_value e = 25"
  shows "d = byte CHR ''2'' \<and> e = byte CHR ''5''"
proof -
  note dd = digit_value_unat [OF d] and ee = digit_value_unat [OF e]
  have "unat (digit_value d * 10 + digit_value e) = unat (digit_value d) * 10 + unat (digit_value e)"
    using dd ee by (simp add: unat_word_ariths)
  with v have "unat (digit_value d) * 10 + unat (digit_value e) = 25" by simp
  with dd ee have "unat d = 50 \<and> unat e = 53" by arith
  then have "d = 50 \<and> e = 53"
    by (simp add: word_unat_eq_iff)
  then show ?thesis by simp
qed


lemma vt100_update_all_append:
  "vt100_update_all t (bs @ cs) = bind_fault (vt100_update_all t bs) (\<lambda>t1. vt100_update_all t1 cs)"
proof (induction bs arbitrary: t)
  case Nil
  show ?case by (simp add: bind_fault_def)
next
  case (Cons b bs)
  show ?case
    by (cases "vt100_update t b") (simp_all add: bind_fault_def Cons.IH)
qed

lemma vt100_update_all_snoc:
  "vt100_update_all t (bs @ [c]) = bind_fault (vt100_update_all t bs) (\<lambda>t1. vt100_update t1 c)"
proof -
  have "vt100_update_all t1 [c] = vt100_update t1 c" for t1
    by (cases "vt100_update t1 c") (simp_all add: bind_fault_def)
  then show ?thesis by (simp add: vt100_update_all_append)
qed

lemma command_index_next:
  "(ci :: u8) \<le> 3 \<Longrightarrow> ci' = ci + 1 \<Longrightarrow> 1 \<le> ci \<Longrightarrow> 1 \<le> ci' \<and> ci' \<le> 4"
  by (simp add: word_le_nat_alt unat_word_ariths)

lemma command_index_le_1:
  "(ci :: u8) \<le> 1 \<Longrightarrow> ci = 0 \<or> ci = 1"
  by (auto simp: word_le_nat_alt word_unat_eq_iff)

lemma parser_history_step:
  assumes h: "parser_history bs t" and u: "vt100_update t c = Inr t'"
  shows "parser_history (bs @ [c]) t'"
proof -
  note st = vt100_update_parser [OF u]
  have csi: "\<exists>pre. bs @ [c] = pre @ [ESCAPE]" if "state t' = TERMINAL_CSI"
    using st that by auto
  have cmd: "\<exists>pre. bs @ [c] = pre @ [ESCAPE, byte CHR ''['']" if "state t' = TERMINAL_COMMAND"
  proof -
    from st that have "state t = TERMINAL_CSI" and c: "c = byte CHR ''[''" by auto
    with h obtain pre where "bs = pre @ [ESCAPE]" by (auto simp: parser_history_def)
    with c show ?thesis by simp
  qed
  have dec: "(command_index t' = 0 \<and> n1 t' = 1
           \<and> (\<exists>pre. bs @ [c] = pre @ [ESCAPE, byte CHR ''['', byte CHR ''?'']))
      \<or> (command_index t' = 1
           \<and> (\<exists>pre d. isdigit d \<and> n1 t' = digit_value d
                 \<and> bs @ [c] = pre @ [ESCAPE, byte CHR ''['', byte CHR ''?'', d]))
      \<or> (command_index t' = 2
           \<and> (\<exists>pre d e. isdigit d \<and> isdigit e \<and> n1 t' = digit_value d * 10 + digit_value e
                 \<and> bs @ [c] = pre @ [ESCAPE, byte CHR ''['', byte CHR ''?'', d, e]))"
    if d: "state t' = TERMINAL_DECTCEM"
  proof -
    from st d consider
      (fresh) "state t = TERMINAL_COMMAND" "c = byte CHR ''?''" "command_index t' = 0" "n1 t' = 1"
    | (digit) "state t = TERMINAL_DECTCEM" "isdigit c" "command_index t \<le> 1"
        "command_index t' = command_index t + 1"
        "n1 t' = n1 t * (if command_index t \<noteq> 0 then 10 else 0) + digit_value c"
      by blast
    then show ?thesis
    proof cases
      case fresh
      with h obtain pre where "bs = pre @ [ESCAPE, byte CHR ''['']"
        by (auto simp: parser_history_def)
      with fresh show ?thesis by simp
    next
      case digit
      from command_index_le_1 [OF digit(3)] show ?thesis
      proof
        assume z: "command_index t = 0"
        with h digit(1) obtain pre where "bs = pre @ [ESCAPE, byte CHR ''['', byte CHR ''?'']"
          by (auto simp: parser_history_def)
        with z digit show ?thesis by auto
      next
        assume o: "command_index t = 1"
        with h digit(1) obtain pre d where "isdigit d" "n1 t = digit_value d"
          "bs = pre @ [ESCAPE, byte CHR ''['', byte CHR ''?'', d]"
          by (auto simp: parser_history_def)
        with o digit show ?thesis by auto
      qed
    qed
  qed
  have num: "1 \<le> command_index t' \<and> command_index t' \<le> 4" if n: "state t' = TERMINAL_NUMBER_1"
  proof -
    from st n consider
      (first) "state t = TERMINAL_COMMAND" "command_index t' = 1"
    | (more) "state t = TERMINAL_NUMBER_1" "command_index t \<le> 3"
        "command_index t' = command_index t + 1"
      by blast
    then show ?thesis
    proof cases
      case first
      then show ?thesis by (simp add: word_le_nat_alt)
    next
      case more
      with h have "1 \<le> command_index t" by (simp add: parser_history_def)
      with more(2,3) show ?thesis by (rule_tac command_index_next)
    qed
  qed
  from csi cmd dec num show ?thesis
    unfolding parser_history_def by blast
qed

lemma parser_history_run:
  assumes "state t0 = TERMINAL_NORMAL_MODE" and "vt100_update_all t0 bs = Inr t"
  shows "parser_history bs t"
  using assms(2)
proof (induction bs arbitrary: t rule: rev_induct)
  case Nil
  with assms(1) show ?case by (simp add: parser_history_def)
next
  case (snoc c bs)
  from snoc.prems obtain t1 where r: "vt100_update_all t0 bs = Inr t1"
    and u: "vt100_update t1 c = Inr t"
    by (auto simp: vt100_update_all_snoc bind_fault_def split: sum.splits)
  from parser_history_step [OF snoc.IH [OF r] u] show ?case .
qed

lemma parser_history_25:
  assumes "parser_history bs t" and "state t = TERMINAL_DECTCEM" and "n1 t = 25"
  shows "\<exists>pre. bs = pre @ [ESCAPE, byte CHR ''['', byte CHR ''?'', byte CHR ''2'', byte CHR ''5'']"
  using assms
  by (auto simp: parser_history_def dest: digit_value_not_25 two_digits_25)

subsection \<open>Evaluation on the VGA terminal\<close>

lemma block_set_loop_eq:
  "i \<le> sz \<Longrightarrow> sz \<le> length xs \<Longrightarrow>
   block_set_loop i sz a xs = take i xs @ replicate (sz - i) a @ drop sz xs"
proof (induction i sz a xs rule: block_set_loop.induct)
  case (1 i sz a xs)
  show ?case
  proof (cases "i < sz")
    case True
    then have "block_set_loop i sz a xs = block_set_loop (Suc i) sz a (xs[i := a])"
      by (subst block_set_loop.simps) simp
    also have "\<dots> = take (Suc i) (xs[i := a]) @ replicate (sz - Suc i) a @ drop sz (xs[i := a])"
      using 1 True by simp
    also have "\<dots> = take i xs @ (a # replicate (sz - Suc i) a) @ drop sz xs"
      using True 1(3) by (simp add: take_Suc_conv_app_nth)
    also have "a # replicate (sz - Suc i) a = replicate (sz - i) a"
      using True by (simp add: Suc_diff_Suc flip: replicate_Suc)
    finally show ?thesis .
  next
    case False
    with 1 show ?thesis by (subst block_set_loop.simps) simp
  qed
qed

lemma block_set_loop_0:
  "sz \<le> length xs \<Longrightarrow> block_set_loop 0 sz a xs = replicate sz a @ drop sz xs"
  by (simp add: block_set_loop_eq)

lemma word_numeral_le_1:
  "(numeral k :: 'a::len word) \<le> 1 \<longleftrightarrow> unat (numeral k :: 'a word) \<le> 1"
  by (simp add: word_le_nat_alt)

lemma replicate_update_0_neq:
  "0 < n \<Longrightarrow> a \<noteq> b \<Longrightarrow> (replicate n b @ ys)[0 := a] \<noteq> replicate n b @ ys"
  by (cases n) auto

lemmas eval_defs = vt100_update_def vt100_update_normal_def vt100_update_overflow_def
  terminal_escape_sequences_def case_TERMINAL_CSI_def case_TERMINAL_COMMAND_def
  case_TERMINAL_NUMBER_1_def case_TERMINAL_NUMBER_2_def case_TERMINAL_DECTCEM_def case_J_def
  goto_success_def goto_fail_def break_return_def bind_fault_def
  terminal_at_xy_def terminal_at_xy_relative_def terminal_x_current_def terminal_y_current_def
  MAX_unsigned_def MIN_unsigned_def MAX_int_def isdigit_def digit_value_def
  terminal_default_command_sequence_def terminal_parse_attribute_def
  terminal_attribute_block_set_def memset_m_def store_m_def store_attributes_def
  VT100_MAX_SIZE_def ESCAPE_def BACKSPACE_def DELETE_def Let_def
  vga_terminal_run_def vt100_initialize_def initialize_rendering_def vga_terminal_vt100_def
  VGA_WIDTH_def VGA_HEIGHT_def
  block_set_loop_0 zero_attribute_def WHITE_def BLACK_def word_numeral_le_1

subsection \<open>Runs through escape sequences\<close>

lemma vt100_update_in_sequence:
  assumes "screen_ok t" and "state t \<noteq> TERMINAL_NORMAL_MODE"
  shows "vt100_update t c =
     bind_fault (terminal_escape_sequences t c) (\<lambda>(r, t1).
       Inr (if r \<noteq> 0 then t1\<lparr>state := TERMINAL_NORMAL_MODE\<rparr> else t1))"
  using assms(2) screen_ok_asserts [OF assms(1)] by (simp add: vt100_update_def)

lemmas sequence_defs = vt100_update_in_sequence terminal_escape_sequences_def
  case_TERMINAL_CSI_def case_TERMINAL_COMMAND_def case_TERMINAL_NUMBER_1_def
  case_TERMINAL_NUMBER_2_def case_TERMINAL_DECTCEM_def
  goto_success_def goto_fail_def break_return_def bind_fault_def
  terminal_default_command_sequence_def isdigit_def digit_value_def Let_def

lemma save_restore_run:
  assumes "screen_ok t" and "cursor_ok t" and "state t = TERMINAL_NORMAL_MODE"
  shows "vt100_update_all t
           [ESCAPE, byte CHR ''['', byte CHR ''s'', ESCAPE, byte CHR ''['', byte CHR ''n'']
         = Inr (t\<lparr>cursor_saved := cursor t\<rparr>)"
proof -
  let ?s = "t\<lparr>cursor_saved := cursor t\<rparr>"
  have 1: "vt100_update_all t [ESCAPE, byte CHR ''['', byte CHR ''s''] = Inr ?s"
    using assms by (simp add: vt100_update_ESCAPE sequence_defs)
  have ok: "screen_ok ?s" "cursor_ok ?s" "state ?s = TERMINAL_NORMAL_MODE"
    using assms by (simp_all add: cursor_ok_cursor cursor_okD)
  have 2: "vt100_update_all ?s [ESCAPE, byte CHR ''['', byte CHR ''n''] = Inr ?s"
    using ok assms by (simp add: vt100_update_ESCAPE [OF ok] sequence_defs)
  have "vt100_update_all t
           ([ESCAPE, byte CHR ''['', byte CHR ''s''] @ [ESCAPE, byte CHR ''['', byte CHR ''n''])
         = Inr ?s"
    unfolding vt100_update_all_append using 1 2 by (simp add: bind_fault_def)
  then show ?thesis by simp
qed


lemma fifth_digit_run:
  assumes "screen_ok t" and "cursor_ok t" and "state t = TERMINAL_NORMAL_MODE"
  shows "vt100_update_all t
           [ESCAPE, byte CHR ''['', byte CHR ''1'', byte CHR ''2'', byte CHR ''3'',
            byte CHR ''4'', byte CHR ''5'']
         = Inr (t\<lparr>n1 := 1234, n2 := 1, command_index := 4\<rparr>)"
  using assms by (simp add: vt100_update_ESCAPE sequence_defs)

lemma fifth_digit_step:
  assumes "state t = TERMINAL_NUMBER_1 \<or> state t = TERMINAL_NUMBER_2"
    and "command_index t > 3" and "isdigit c"
  shows "terminal_escape_sequences t c = Inr (- 1, t\<lparr>state := TERMINAL_NORMAL_MODE\<rparr>)"
  using assms
  by (auto simp: terminal_escape_sequences_def case_TERMINAL_NUMBER_1_def
      case_TERMINAL_NUMBER_2_def goto_fail_def)

lemma MAX_unsigned_0: "MAX_unsigned x 0 = x"
  by (simp add: MAX_unsigned_def word_greater_zero_iff)

lemma unat_MIN_unsigned: "unat (MIN_unsigned a b) = min (unat a) (unat b)"
  by (simp add: MIN_unsigned_def word_less_nat_alt min_def)

lemma clamp_cursor_value:
  assumes "screen_ok t"
  shows "unat (ucast (MIN_unsigned Y (height t - 1) * width t + MIN_unsigned X (width t - 1)) :: size_t)
           = min (unat Y) (unat (height t) - 1) * unat (width t) + min (unat X) (unat (width t) - 1)"
proof -
  from assms have w: "0 < unat (width t)" and h: "0 < unat (height t)"
    and le: "unat (width t) * unat (height t) \<le> 8192"
    by (simp_all add: screen_ok_def VT100_MAX_SIZE_def)
  have x: "unat (MIN_unsigned X (width t - 1)) \<le> unat (width t) - 1"
    using MIN_unsigned_le [of X "width t - 1"] w by (simp add: unat_minus_1_pos)
  have y: "unat (MIN_unsigned Y (height t - 1)) \<le> unat (height t) - 1"
    using MIN_unsigned_le [of Y "height t - 1"] h by (simp add: unat_minus_1_pos)
  from cell_bound(1) [OF w h le x y] w h show ?thesis
    by (simp add: unat_MIN_unsigned unat_minus_1_pos)
qed

lemma H_step:
  assumes "screen_ok t" and "state t = TERMINAL_NUMBER_2"
    and "c = byte CHR ''H'' \<or> c = byte CHR ''f''"
  shows "\<exists>t'. vt100_update t c = Inr t' \<and> state t' = TERMINAL_NORMAL_MODE
           \<and> unat (cursor t') mod unat (width t) = min (unat (n2 t)) (unat (width t) - 1)
           \<and> unat (cursor t') div unat (width t) = min (unat (n1 t)) (unat (height t) - 1)"
proof -
  let ?k = "ucast (MIN_unsigned (n1 t) (height t - 1) * width t
                   + MIN_unsigned (n2 t) (width t - 1)) :: size_t"
  have u: "vt100_update t c = Inr (t\<lparr>cursor := ?k, state := TERMINAL_NORMAL_MODE\<rparr>)"
    using assms by (auto simp: sequence_defs terminal_at_xy_clamp_eq MAX_unsigned_0)
  from assms(1) have w: "0 < unat (width t)" by (simp add: screen_ok_def)
  have x: "min (unat (n2 t)) (unat (width t) - 1) < unat (width t)"
    using w by simp
  show ?thesis
    using u x by (simp add: clamp_cursor_value [OF assms(1)])
qed

lemma H_999_run:
  assumes "screen_ok t" and "cursor_ok t" and "state t = TERMINAL_NORMAL_MODE"
    and "width t = 80" and "height t = 40"
  shows "vt100_update_all t
           [ESCAPE, byte CHR ''['', byte CHR ''9'', byte CHR ''9'', byte CHR ''9'', byte CHR '';'',
            byte CHR ''9'', byte CHR ''9'', byte CHR ''9'', byte CHR ''H'']
         = Inr (t\<lparr>cursor := 3199, n1 := 999, n2 := 999, command_index := 3\<rparr>)"
  using assms
  by (simp add: vt100_update_ESCAPE sequence_defs terminal_at_xy_clamp_eq MAX_unsigned_def
      MIN_unsigned_def)

lemma H_default_run:
  assumes "screen_ok t" and "cursor_ok t" and "state t = TERMINAL_NORMAL_MODE"
    and "width t = 80" and "height t = 40"
  shows "vt100_update_all t [ESCAPE, byte CHR ''['', byte CHR '';'', byte CHR ''H'']
         = Inr (t\<lparr>cursor := 81, n1 := 1, n2 := 1, command_index := 0\<rparr>)"
  using assms
  by (simp add: vt100_update_ESCAPE sequence_defs terminal_at_xy_clamp_eq MAX_unsigned_def
      MIN_unsigned_def)

subsection \<open>Erase in display\<close>

lemma parser_history_NUMBER_1:
  assumes "parser_history bs t" and "state t = TERMINAL_NUMBER_1"
  shows "command_index t \<noteq> 0"
  using assms by (auto simp: parser_history_def)

lemma J_step:
  assumes ok: "screen_ok t" "cursor_ok t" "arrays_ok t"
    and st: "state t = TERMINAL_NUMBER_1" and ci: "command_index t \<noteq> 0"
  shows "(n1 t = 2 \<or> n1 t = 3 \<longrightarrow>
           terminal_escape_sequences t (byte CHR ''J'') =
             Inr (0, t\<lparr>cursor := 0, state := TERMINAL_NORMAL_MODE,
                       attributes := replicate (unat (size_vt t)) vt100_default_attribute
                                      @ drop (unat (size_vt t)) (attributes t),
                       m := replicate (unat (size_vt t)) (byte CHR '' '')
                             @ drop (unat (size_vt t)) (m t)\<rparr>))
       \<and> (n1 t = 1 \<longrightarrow>
           terminal_escape_sequences t (byte CHR ''J'') =
             Inr (0, t\<lparr>state := TERMINAL_NORMAL_MODE,
                       attributes := replicate (unat (size_vt t)) vt100_default_attribute
                                      @ drop (unat (size_vt t)) (attributes t),
                       m := replicate (unat (size_vt t)) (byte CHR '' '')
                             @ drop (unat (size_vt t)) (m t)\<rparr>))
       \<and> (n1 t = 0 \<longrightarrow>
           terminal_escape_sequences t (byte CHR ''J'') =
             Inr (0, t\<lparr>state := TERMINAL_NORMAL_MODE,
                       attributes := replicate (unat (cursor t)) vt100_default_attribute
                                      @ drop (unat (cursor t)) (attributes t),
                       m := replicate (unat (cursor t)) (byte CHR '' '')
                             @ drop (unat (cursor t)) (m t)\<rparr>))
       \<and> (n1 t \<noteq> 0 \<and> n1 t \<noteq> 1 \<and> n1 t \<noteq> 2 \<and> n1 t \<noteq> 3 \<longrightarrow>
           terminal_escape_sequences t (byte CHR ''J'') =
             Inr (- 1, t\<lparr>state := TERMINAL_NORMAL_MODE\<rparr>))"
proof -
  have sz: "unat (size_vt t) \<le> 8192" by (rule screen_ok_size [OF ok(1)])
  have cu: "unat (cursor t) \<le> 8192" using cursor_lt_max [OF ok(1,2)] by simp
  have len: "length (attributes t) = 8192"
    using ok(3) by (simp add: arrays_ok_def VT100_MAX_SIZE_def)
  have tes: "terminal_escape_sequences t (byte CHR ''J'') = case_J t"
    using st by (simp add: terminal_escape_sequences_def case_TERMINAL_NUMBER_1_def isdigit_def)
  show ?thesis
    unfolding tes using sz cu len ci
    by (simp add: case_J_def goto_defs store_defs block_set_loop_0 Let_def)
qed

lemma isdigit_not_command:
  "isdigit d \<Longrightarrow> d \<noteq> 0x3B \<and> d \<noteq> 0x3F \<and> d \<noteq> 0x6E \<and> d \<noteq> 0x73"
  by (auto simp: isdigit_def)

lemma digit_run:
  assumes "screen_ok t" and "cursor_ok t" and "state t = TERMINAL_NORMAL_MODE" and "isdigit d"
  shows "vt100_update_all t [ESCAPE, byte CHR ''['', d]
      = Inr (t\<lparr>n1 := digit_value d, n2 := 1, state := TERMINAL_NUMBER_1, command_index := 1\<rparr>)"
  using assms isdigit_not_command [OF assms(4)]
  by (simp add: vt100_update_ESCAPE vt100_update_in_sequence terminal_escape_sequences_def
      case_TERMINAL_CSI_def case_TERMINAL_COMMAND_def goto_defs
      terminal_default_command_sequence_def Let_def)

subsection \<open>Filling the FIFO\<close>

lemma unat_size_t_less: "unat (w :: size_t) < 18446744073709551616"
  using unsigned_less [of w, where 'a = nat] by simp

lemma fifo_push_room:
  assumes t: "tail fifo = 0" and len: "length (buffer fifo) = unat (size_fifo fifo)"
    and room: "unat (head fifo) + 1 < unat (size_fifo fifo)"
  shows "fifo_push fifo d =
           Inr (1, fifo\<lparr>buffer := (buffer fifo)[unat (head fifo) := d], head := head fifo + 1\<rparr>)"
    and "unat (head fifo + 1) = unat (head fifo) + 1"
proof -
  have s: "unat (size_fifo fifo) < 18446744073709551616" by (rule unat_size_t_less)
  show h1: "unat (head fifo + 1) = unat (head fifo) + 1"
    using room s by (simp add: unat_word_ariths)
  have "size_fifo fifo \<noteq> 0" using room by (auto simp: unat_eq_zero)
  then have "unat (size_fifo fifo - 1) = unat (size_fifo fifo) - 1"
    by (simp add: unat_minus_one)
  with room have n1: "head fifo \<noteq> size_fifo fifo - 1"
    by (auto simp: word_unat_eq_iff)
  have "unat (- 1 :: size_t) = 18446744073709551615"
    by (simp add: unsigned_minus_1_eq_mask mask_eq_exp_minus_1)
  with room s have n2: "head fifo \<noteq> - 1"
    by (auto simp: word_unat_eq_iff)
  have n3: "head fifo + 1 \<noteq> size_fifo fifo"
    using h1 room by (auto simp: word_unat_eq_iff)
  show "fifo_push fifo d =
           Inr (1, fifo\<lparr>buffer := (buffer fifo)[unat (head fifo) := d], head := head fifo + 1\<rparr>)"
    using t len room n1 n2 n3 by (simp add: fifo_push_def fifo_is_full_def Let_def)
qed

lemma fifo_push_all_room:
  assumes "tail fifo = 0" and "length (buffer fifo) = unat (size_fifo fifo)"
    and "unat (head fifo) + length ds < unat (size_fifo fifo)"
  shows "\<exists>f. fifo_push_all fifo ds = Inr (replicate (length ds) 1, f)
           \<and> tail f = 0 \<and> size_fifo f = size_fifo fifo
           \<and> length (buffer f) = unat (size_fifo fifo)
           \<and> unat (head f) = unat (head fifo) + length ds"
  using assms
proof (induction ds arbitrary: fifo)
  case Nil
  then show ?case by simp
next
  case (Cons d ds)
  let ?f1 = "fifo\<lparr>buffer := (buffer fifo)[unat (head fifo) := d], head := head fifo + 1\<rparr>"
  from Cons.prems have room: "unat (head fifo) + 1 < unat (size_fifo fifo)" by simp
  note p = fifo_push_room(1) [OF Cons.prems(1,2) room, of d]
    fifo_push_room(2) [OF Cons.prems(1,2) room]
  have "tail ?f1 = 0" "length (buffer ?f1) = unat (size_fifo ?f1)"
    "unat (head ?f1) + length ds < unat (size_fifo ?f1)"
    using Cons.prems p(2) by simp_all
  from Cons.IH [OF this] obtain f where
    f: "fifo_push_all ?f1 ds = Inr (replicate (length ds) 1, f)" "tail f = 0"
      "size_fifo f = size_fifo fifo" "length (buffer f) = unat (size_fifo fifo)"
      "unat (head f) = unat (head ?f1) + length ds"
    by auto
  with p show ?case by (simp add: bind_fault_def)
qed

lemma fifo_push_all_append:
  "fifo_push_all fifo (ds @ es) =
     bind_fault (fifo_push_all fifo ds) (\<lambda>(rs, f1).
     bind_fault (fifo_push_all f1 es) (\<lambda>(ss, f2). Inr (rs @ ss, f2)))"
proof (induction ds arbitrary: fifo)
  case Nil
  show ?case by (auto simp: bind_fault_def split: sum.splits)
next
  case (Cons d ds)
  show ?case
    by (auto simp: bind_fault_def Cons.IH split: sum.splits)
qed

lemma fifo_push_full: "fifo_is_full q \<Longrightarrow> fifo_push q d = Inr (0, q)"
  by (simp add: fifo_push_def)

lemma fifo_pop_empty: "fifo_is_empty q \<Longrightarrow> fifo_pop q d = Inr (0, d, q)"
  by (simp add: fifo_pop_def)

lemma fifo_fill:
  assumes "2 \<le> sz" and "length ds = unat sz - 1"
  shows "\<exists>f. fifo_new_push_all sz ds = Inr (replicate (unat sz - 1) 1, f) \<and> fifo_is_full f
           \<and> fifo_new_push_all sz (ds @ [d]) = Inr (replicate (unat sz - 1) 1 @ [0], f)"
proof -
  let ?f0 = "\<lparr>head = 0, tail = 0, size_fifo = sz, buffer = replicate (unat sz) 0\<rparr>"
  have new: "fifo_new sz = Inr ?f0" using assms(1) by (simp add: fifo_new_def)
  from assms(1) have two: "2 \<le> unat sz" by (simp add: word_le_nat_alt)
  have "tail ?f0 = 0" "length (buffer ?f0) = unat (size_fifo ?f0)"
    "unat (head ?f0) + length ds < unat (size_fifo ?f0)"
    using assms(2) two by simp_all
  from fifo_push_all_room [OF this] obtain f where
    f: "fifo_push_all ?f0 ds = Inr (replicate (length ds) 1, f)" "tail f = 0"
      "size_fifo f = sz" "unat (head f) = length ds"
    by auto
  have "sz \<noteq> 0" using two by (auto simp: unat_eq_zero)
  then have "unat (sz - 1) = unat sz - 1" by (simp add: unat_minus_one)
  with f(3) have "unat (size_fifo f - 1) = unat sz - 1" by simp
  with f(4) assms(2) have "head f = size_fifo f - 1" by (simp add: word_unat_eq_iff)
  with f(2) have full: "fifo_is_full f" by (simp add: fifo_is_full_def)
  show ?thesis
    using new f(1) full assms(2) fifo_push_full [OF full, of d]
    by (simp add: fifo_new_push_all_def fifo_push_all_append bind_fault_def)
qed

subsection \<open>A glyph byte in normal mode\<close>

lemma unat_cursor_succ:
  assumes "screen_ok t" and "cursor_ok t"
  shows "unat (cursor t + 1) = unat (cursor t) + 1"
proof -
  have "unat (cursor t) < 8192" by (rule cursor_lt_max [OF assms])
  then show ?thesis by (simp add: unat_word_ariths)
qed

lemma normal_byte_A:
  "byte CHR ''A'' \<noteq> ESCAPE" "byte CHR ''A'' \<noteq> DELETE" "byte CHR ''A'' \<noteq> BACKSPACE"
  by (simp_all add: ESCAPE_def DELETE_def BACKSPACE_def)

lemma store_A_inside:
  assumes ok: "screen_ok t" "cursor_ok t" and n: "state t = TERMINAL_NORMAL_MODE"
    and room: "unat (cursor t) + 1 < unat (size_vt t)"
  shows "vt100_update t (byte CHR ''A'') =
     Inr (t\<lparr>cursor := cursor t + 1,
            attributes := (attributes t)[unat (cursor t) := attribute t],
            m := (m t)[unat (cursor t) := byte CHR ''A'']\<rparr>)"
proof -
  note s = unat_cursor_succ [OF ok]
  have lt: "cursor t < ucast (size_vt t)"
    using room by (simp add: word_less_nat_alt unat_ucast_32_64)
  have c: "unat (cursor t) < 8192" by (rule cursor_lt_max [OF ok])
  have lt1: "cursor t + 1 < ucast (size_vt t)"
    using room s by (simp add: word_less_nat_alt unat_ucast_32_64)
  then have ge: "\<not> ucast (size_vt t) \<le> cursor t + 1" by simp
  have md: "(cursor t + 1) mod ucast (size_vt t) = cursor t + 1"
    using lt1 by (rule mod_word_less)
  show ?thesis
    using n screen_ok_asserts [OF ok(1)] lt c ge md screen_ok_size_pos [OF ok(1)] normal_byte_A
    by (simp add: vt100_update_def vt100_update_normal_def vt100_update_overflow_def
        bind_fault_def store_m_def store_attributes_def VT100_MAX_SIZE_def)
qed

lemma store_A_last_cell:
  assumes ok: "screen_ok t" "cursor_ok t" and n: "state t = TERMINAL_NORMAL_MODE"
    and last: "unat (cursor t) + 1 = unat (size_vt t)" and arr: "arrays_ok t"
  shows "vt100_update t (byte CHR ''A'') =
     Inr (t\<lparr>cursor := 0,
            attributes := replicate (unat (size_vt t)) vt100_default_attribute
                           @ drop (unat (size_vt t)) (attributes t),
            m := replicate (unat (size_vt t)) (byte CHR '' '')
                  @ drop (unat (size_vt t)) (m t)\<rparr>)"
proof -
  note s = unat_cursor_succ [OF ok]
  have lt: "cursor t < ucast (size_vt t)"
    using last by (simp add: word_less_nat_alt unat_ucast_32_64)
  have c: "unat (cursor t) < 8192" by (rule cursor_lt_max [OF ok])
  have eq: "cursor t + 1 = ucast (size_vt t)"
    using last s by (simp add: word_unat_eq_iff unat_ucast_32_64)
  have sz: "unat (size_vt t) \<le> 8192" by (rule screen_ok_size [OF ok(1)])
  have len: "length (attributes t) = 8192" "length (m t) = 8192"
    using arr by (simp_all add: arrays_ok_def VT100_MAX_SIZE_def)
  have cs: "unat (cursor t) < unat (size_vt t)" using last by simp
  show ?thesis
    using n screen_ok_asserts [OF ok(1)] lt c sz len cs screen_ok_size_pos [OF ok(1)] normal_byte_A
    by (simp add: vt100_update_def vt100_update_normal_def vt100_update_overflow_def
        bind_fault_def store_m_def store_attributes_def memset_m_def
        terminal_attribute_block_set_def VT100_MAX_SIZE_def eq block_set_loop_0)
qed

section \<open>Claims\<close>

text \<open>
  C1. From a well-formed screen with \<open>cursor = 0\<close> and \<open>cursor_saved = 0\<close>, feeding any
  sequence of bytes through \<open>vt100_update\<close> never faults, and the terminal it leaves has
  \<open>cursor < size\<close> and \<open>cursor_saved < size\<close>, with \<open>size\<close> unchanged. The byte sequence
  is arbitrary, so this holds after every processed byte.
\<close>

theorem cursor_in_range_after_every_byte:
  assumes "screen_ok t" and "cursor t = 0" and "cursor_saved t = 0"
  shows "\<exists>t'. vt100_update_all t bs = Inr t'
           \<and> unat (cursor t') < unat (size_vt t')
           \<and> unat (cursor_saved t') < unat (size_vt t')
           \<and> size_vt t' = size_vt t"
proof -
  have "cursor_ok t"
    using assms by (simp add: cursor_ok_def screen_ok_size_gt0)
  from vt100_update_all_inv [OF assms(1) this, of bs] show ?thesis
    by (auto simp: cursor_ok_def)
qed

theorem cursor_in_range_after_every_byte_witness:
  "screen_ok vga_terminal_vt100 \<and> cursor vga_terminal_vt100 = 0
     \<and> cursor_saved vga_terminal_vt100 = 0
     \<and> (\<exists>t'. vt100_update_all vga_terminal_vt100 [0x48, 0x69, 0x1B, 0x5B, 0x32, 0x4A] = Inr t'
           \<and> unat (cursor t') < unat (size_vt t')
           \<and> unat (cursor_saved t') < unat (size_vt t')
           \<and> size_vt t' = size_vt vga_terminal_vt100)"
proof -
  have h1: "screen_ok vga_terminal_vt100"
    by (simp add: screen_ok_def vga_terminal_vt100_def VGA_WIDTH_def VGA_HEIGHT_def
        VT100_MAX_SIZE_def)
  have h2: "cursor vga_terminal_vt100 = 0" and h3: "cursor_saved vga_terminal_vt100 = 0"
    by (simp_all add: vga_terminal_vt100_def)
  from cursor_in_range_after_every_byte [OF h1 h2 h3] h1 h2 h3 show ?thesis
    by blast
qed

text \<open>
  C2. Let the terminal be well-formed and in normal mode. The byte ESC only moves the
  parser to \<open>TERMINAL_CSI\<close>. If the bytes that follow form an escape sequence that ends
  in \<^verbatim>\<open>fail\<close>, then after them the glyph array, the attribute array, the cursor, the
  saved cursor, the current attribute and \<open>cursor_on\<close> are what they were before the
  ESC, and the parser is in normal mode. ESC followed by one byte other than \<open>[\<close> is
  such a sequence.
\<close>

theorem failed_escape_sequence_changes_nothing:
  assumes "screen_ok t" and "cursor_ok t" and "state t = TERMINAL_NORMAL_MODE"
  shows "vt100_update t ESCAPE = Inr (t\<lparr>state := TERMINAL_CSI\<rparr>)
       \<and> (escape_sequence_fails (t\<lparr>state := TERMINAL_CSI\<rparr>) bs \<longrightarrow>
           (\<exists>t'. vt100_update_all t (ESCAPE # bs) = Inr t'
             \<and> m t' = m t \<and> attributes t' = attributes t \<and> cursor t' = cursor t
             \<and> cursor_saved t' = cursor_saved t \<and> attribute t' = attribute t
             \<and> cursor_on t' = cursor_on t \<and> state t' = TERMINAL_NORMAL_MODE))
       \<and> (X \<noteq> byte CHR ''['' \<longrightarrow>
           (\<exists>t'. vt100_update_all t [ESCAPE, X] = Inr t'
             \<and> m t' = m t \<and> attributes t' = attributes t \<and> cursor t' = cursor t
             \<and> cursor_saved t' = cursor_saved t \<and> attribute t' = attribute t
             \<and> cursor_on t' = cursor_on t \<and> state t' = TERMINAL_NORMAL_MODE))"
proof -
  have esc: "vt100_update t ESCAPE = Inr (t\<lparr>state := TERMINAL_CSI\<rparr>)"
    by (rule vt100_update_ESCAPE [OF assms])
  have open_state: "state (t\<lparr>state := TERMINAL_CSI\<rparr>) \<noteq> TERMINAL_NORMAL_MODE" by simp
  have run: "\<exists>t'. vt100_update_all t (ESCAPE # cs) = Inr t'
             \<and> m t' = m t \<and> attributes t' = attributes t \<and> cursor t' = cursor t
             \<and> cursor_saved t' = cursor_saved t \<and> attribute t' = attribute t
             \<and> cursor_on t' = cursor_on t \<and> state t' = TERMINAL_NORMAL_MODE"
    if f: "escape_sequence_fails (t\<lparr>state := TERMINAL_CSI\<rparr>) cs" for cs
    using escape_sequence_fails_run [OF f open_state] screen_ok_asserts [OF assms(1)] esc
    by (simp add: bind_fault_def)
  have one: "escape_sequence_fails (t\<lparr>state := TERMINAL_CSI\<rparr>) [X]" if "X \<noteq> byte CHR ''[''"
    using that
    by (simp add: terminal_escape_sequences_def case_TERMINAL_CSI_def goto_fail_def)
  from esc run [of bs] run [OF one] show ?thesis by blast
qed

theorem failed_escape_sequence_changes_nothing_witness:
  "screen_ok vga_terminal_vt100 \<and> cursor_ok vga_terminal_vt100
     \<and> state vga_terminal_vt100 = TERMINAL_NORMAL_MODE
     \<and> escape_sequence_fails (vga_terminal_vt100\<lparr>state := TERMINAL_CSI\<rparr>)
          [byte CHR ''['', byte CHR ''?'', byte CHR ''9'', byte CHR ''9'', byte CHR ''l'']
     \<and> (\<exists>t'. vt100_update_all vga_terminal_vt100
            (ESCAPE # [byte CHR ''['', byte CHR ''?'', byte CHR ''9'', byte CHR ''9'', byte CHR ''l''])
              = Inr t'
          \<and> m t' = m vga_terminal_vt100 \<and> attributes t' = attributes vga_terminal_vt100
          \<and> cursor t' = cursor vga_terminal_vt100
          \<and> cursor_saved t' = cursor_saved vga_terminal_vt100
          \<and> attribute t' = attribute vga_terminal_vt100
          \<and> cursor_on t' = cursor_on vga_terminal_vt100 \<and> state t' = TERMINAL_NORMAL_MODE)
     \<and> byte CHR ''X'' \<noteq> byte CHR ''[''
     \<and> (\<exists>t'. vt100_update_all vga_terminal_vt100 [ESCAPE, byte CHR ''X''] = Inr t'
          \<and> m t' = m vga_terminal_vt100 \<and> attributes t' = attributes vga_terminal_vt100
          \<and> cursor t' = cursor vga_terminal_vt100
          \<and> cursor_saved t' = cursor_saved vga_terminal_vt100
          \<and> attribute t' = attribute vga_terminal_vt100
          \<and> cursor_on t' = cursor_on vga_terminal_vt100 \<and> state t' = TERMINAL_NORMAL_MODE)"
proof -
  have h1: "screen_ok vga_terminal_vt100"
    by (simp add: screen_ok_def vga_terminal_vt100_def VGA_WIDTH_def VGA_HEIGHT_def
        VT100_MAX_SIZE_def)
  have h2: "cursor_ok vga_terminal_vt100"
    by (simp add: cursor_ok_def vga_terminal_vt100_def VGA_WIDTH_def VGA_HEIGHT_def)
  have h3: "state vga_terminal_vt100 = TERMINAL_NORMAL_MODE"
    by (simp add: vga_terminal_vt100_def)
  have h4: "escape_sequence_fails (vga_terminal_vt100\<lparr>state := TERMINAL_CSI\<rparr>)
          [byte CHR ''['', byte CHR ''?'', byte CHR ''9'', byte CHR ''9'', byte CHR ''l'']"
    by (simp add: vga_terminal_vt100_def terminal_escape_sequences_def case_TERMINAL_CSI_def
        case_TERMINAL_COMMAND_def case_TERMINAL_DECTCEM_def goto_defs isdigit_def digit_value_def
        terminal_default_command_sequence_def)
  have h5: "byte CHR ''X'' \<noteq> byte CHR ''[''" by simp
  from failed_escape_sequence_changes_nothing [OF h1 h2 h3,
      of "[byte CHR ''['', byte CHR ''?'', byte CHR ''9'', byte CHR ''9'', byte CHR ''l'']"
         "byte CHR ''X''"]
    h1 h2 h3 h4 h5
  show ?thesis by blast
qed

text \<open>
  C10. Let \<open>t\<close> be reached from a terminal in normal mode by feeding the bytes \<open>bs\<close>, and
  let \<open>vt100_update\<close> process one more byte \<open>c\<close>. Then \<open>blinks\<close> is unchanged; if
  \<open>cursor_on\<close> changes, the bytes fed so far end with ESC \<open>[\<close> \<open>?\<close> \<open>2\<close> \<open>5\<close> and \<open>c\<close> is
  \<open>h\<close> (and \<open>cursor_on\<close> is now true) or \<open>l\<close> (and it is now false); and in state
  \<open>TERMINAL_DECTCEM\<close> with \<open>n1 = 25\<close> the byte \<open>h\<close> sets \<open>cursor_on\<close> and \<open>l\<close> clears it.
\<close>

theorem flags_change_only_through_DECTCEM:
  assumes "state t0 = TERMINAL_NORMAL_MODE"
    and "vt100_update_all t0 bs = Inr t"
    and "vt100_update t c = Inr t'"
  shows "blinks t' = blinks t
       \<and> (cursor_on t' \<noteq> cursor_on t \<longrightarrow>
            (\<exists>pre. bs = pre @ [ESCAPE, byte CHR ''['', byte CHR ''?'', byte CHR ''2'', byte CHR ''5''])
          \<and> (c = byte CHR ''h'' \<and> cursor_on t' \<or> c = byte CHR ''l'' \<and> \<not> cursor_on t'))
       \<and> (state t = TERMINAL_DECTCEM \<and> n1 t = 25 \<longrightarrow>
            (c = byte CHR ''h'' \<longrightarrow> cursor_on t') \<and> (c = byte CHR ''l'' \<longrightarrow> \<not> cursor_on t'))"
proof -
  note st = vt100_update_parser [OF assms(3)]
  note h = parser_history_run [OF assms(1,2)]
  have b: "blinks t' = blinks t" using st by simp
  have only: "(\<exists>pre. bs = pre @ [ESCAPE, byte CHR ''['', byte CHR ''?'', byte CHR ''2'', byte CHR ''5''])
          \<and> (c = byte CHR ''h'' \<and> cursor_on t' \<or> c = byte CHR ''l'' \<and> \<not> cursor_on t')"
    if ch: "cursor_on t' \<noteq> cursor_on t"
  proof -
    from ch st have d: "state t = TERMINAL_DECTCEM" "n1 t = 25"
      and c: "c = byte CHR ''h'' \<and> cursor_on t' \<or> c = byte CHR ''l'' \<and> \<not> cursor_on t'"
      by auto
    from parser_history_25 [OF h d] c show ?thesis by simp
  qed
  have sets: "(c = byte CHR ''h'' \<longrightarrow> cursor_on t') \<and> (c = byte CHR ''l'' \<longrightarrow> \<not> cursor_on t')"
    if "state t = TERMINAL_DECTCEM \<and> n1 t = 25"
    using that assms(3)
    by (auto simp: vt100_update_def terminal_escape_sequences_def case_TERMINAL_DECTCEM_def
        goto_success_def bind_fault_def isdigit_def split: if_splits)
  from b only sets show ?thesis by blast
qed

theorem flags_change_only_through_DECTCEM_witness:
  "state vga_terminal_vt100 = TERMINAL_NORMAL_MODE
   \<and> vt100_update_all vga_terminal_vt100
        [ESCAPE, byte CHR ''['', byte CHR ''?'', byte CHR ''2'', byte CHR ''5'']
       = Inr (vga_terminal_vt100\<lparr>n1 := 25, state := TERMINAL_DECTCEM, command_index := 2\<rparr>)
   \<and> vt100_update (vga_terminal_vt100\<lparr>n1 := 25, state := TERMINAL_DECTCEM, command_index := 2\<rparr>)
        (byte CHR ''l'')
       = Inr (vga_terminal_vt100\<lparr>n1 := 25, state := TERMINAL_NORMAL_MODE, cursor_on := False,
                command_index := 2\<rparr>)
   \<and> cursor_on (vga_terminal_vt100\<lparr>n1 := 25, state := TERMINAL_NORMAL_MODE, cursor_on := False,
                command_index := 2\<rparr>)
       \<noteq> cursor_on (vga_terminal_vt100\<lparr>n1 := 25, state := TERMINAL_DECTCEM, command_index := 2\<rparr>)
   \<and> state (vga_terminal_vt100\<lparr>n1 := 25, state := TERMINAL_DECTCEM, command_index := 2\<rparr>)
       = TERMINAL_DECTCEM
   \<and> n1 (vga_terminal_vt100\<lparr>n1 := 25, state := TERMINAL_DECTCEM, command_index := 2\<rparr>) = 25
   \<and> blinks (vga_terminal_vt100\<lparr>n1 := 25, state := TERMINAL_NORMAL_MODE, cursor_on := False,
                command_index := 2\<rparr>)
       = blinks (vga_terminal_vt100\<lparr>n1 := 25, state := TERMINAL_DECTCEM, command_index := 2\<rparr>)
   \<and> (\<exists>pre. [ESCAPE, byte CHR ''['', byte CHR ''?'', byte CHR ''2'', byte CHR ''5'']
          = pre @ [ESCAPE, byte CHR ''['', byte CHR ''?'', byte CHR ''2'', byte CHR ''5''])
   \<and> \<not> cursor_on (vga_terminal_vt100\<lparr>n1 := 25, state := TERMINAL_NORMAL_MODE,
                cursor_on := False, command_index := 2\<rparr>)"
proof -
  have h1: "state vga_terminal_vt100 = TERMINAL_NORMAL_MODE"
    by (simp add: vga_terminal_vt100_def)
  have h2: "vt100_update_all vga_terminal_vt100
        [ESCAPE, byte CHR ''['', byte CHR ''?'', byte CHR ''2'', byte CHR ''5'']
       = Inr (vga_terminal_vt100\<lparr>n1 := 25, state := TERMINAL_DECTCEM, command_index := 2\<rparr>)"
    by (simp add: vga_terminal_vt100_def VGA_WIDTH_def VGA_HEIGHT_def VT100_MAX_SIZE_def
        ESCAPE_def vt100_update_def vt100_update_normal_def vt100_update_overflow_def
        terminal_escape_sequences_def case_TERMINAL_CSI_def case_TERMINAL_COMMAND_def
        case_TERMINAL_DECTCEM_def goto_defs isdigit_def digit_value_def
        terminal_default_command_sequence_def)
  have h3: "vt100_update (vga_terminal_vt100\<lparr>n1 := 25, state := TERMINAL_DECTCEM, command_index := 2\<rparr>)
        (byte CHR ''l'')
       = Inr (vga_terminal_vt100\<lparr>n1 := 25, state := TERMINAL_NORMAL_MODE, cursor_on := False,
                command_index := 2\<rparr>)"
    by (simp add: vga_terminal_vt100_def VGA_WIDTH_def VGA_HEIGHT_def VT100_MAX_SIZE_def
        vt100_update_def terminal_escape_sequences_def case_TERMINAL_DECTCEM_def goto_defs
        isdigit_def)
  have h4: "cursor_on (vga_terminal_vt100\<lparr>n1 := 25, state := TERMINAL_NORMAL_MODE, cursor_on := False,
                command_index := 2\<rparr>)
       \<noteq> cursor_on (vga_terminal_vt100\<lparr>n1 := 25, state := TERMINAL_DECTCEM, command_index := 2\<rparr>)"
    by (simp add: vga_terminal_vt100_def)
  have h5: "state (vga_terminal_vt100\<lparr>n1 := 25, state := TERMINAL_DECTCEM, command_index := 2\<rparr>)
       = TERMINAL_DECTCEM"
    and h6: "n1 (vga_terminal_vt100\<lparr>n1 := 25, state := TERMINAL_DECTCEM, command_index := 2\<rparr>) = 25"
    by simp_all
  from flags_change_only_through_DECTCEM [OF h1 h2 h3] h1 h2 h3 h4 h5 h6
  show ?thesis by simp
qed

text \<open>
  C3. The claim says that \<open>E\<close> in state \<open>TERMINAL_NUMBER_1\<close> moves the cursor \<open>n1\<close> rows
  down from the current row. The code calls \<^verbatim>\<open>terminal_at_xy\<close> with the row \<open>n1\<close> itself:
  on the VGA terminal, two line feeds put the cursor on row 2 (cell 160), and
  ESC \<open>[\<close> \<open>1\<close> \<open>E\<close> then moves it to row 1 (cell 80), not to row 3.
\<close>

theorem E_moves_to_row_n1_not_down:
  "map_sum id cursor (vga_terminal_run [0x0A, 0x0A]) = Inr 160
   \<and> map_sum id cursor
        (vga_terminal_run [0x0A, 0x0A, ESCAPE, byte CHR ''['', byte CHR ''1'', byte CHR ''E''])
       = Inr 80"
  by (simp add: eval_defs)

text \<open>
  C4. The claim says that \<open>F\<close> in state \<open>TERMINAL_NUMBER_1\<close> moves the cursor \<open>n1\<close> rows up
  from the current row. The code calls \<^verbatim>\<open>terminal_at_xy\<close> with the row \<open>- n1\<close>, an
  \<^verbatim>\<open>unsigned\<close>, reduced modulo the height: on the VGA terminal, two line feeds put the
  cursor on row 2 (cell 160), and ESC \<open>[\<close> \<open>1\<close> \<open>F\<close> then moves it to row
  \<open>(2^32 - 1) mod 40 = 15\<close> (cell 1200), not to row 1.
\<close>

theorem F_moves_to_row_minus_n1_not_up:
  "map_sum id cursor (vga_terminal_run [0x0A, 0x0A]) = Inr 160
   \<and> map_sum id cursor
        (vga_terminal_run [0x0A, 0x0A, ESCAPE, byte CHR ''['', byte CHR ''1'', byte CHR ''F''])
       = Inr 1200"
  by (simp add: eval_defs)

text \<open>
  C6. On a well-formed terminal, \<open>H\<close> or \<open>f\<close> in state \<open>TERMINAL_NUMBER_2\<close> ends the
  sequence with the cursor in column \<open>min n2 (width - 1)\<close> and row \<open>min n1 (height - 1)\<close>.
  On an 80 by 40 screen in normal mode, ESC \<open>[\<close> \<open>999\<close> \<open>;\<close> \<open>999\<close> \<open>H\<close> leaves the
  cursor at column 79 of row 39, and ESC \<open>[\<close> \<open>;\<close> \<open>H\<close> leaves it at column 1 of row 1.
\<close>

theorem H_sets_clamped_position:
  assumes "screen_ok t" and "cursor_ok t"
  shows "(state t = TERMINAL_NUMBER_2 \<and> (c = byte CHR ''H'' \<or> c = byte CHR ''f'') \<longrightarrow>
           (\<exists>t'. vt100_update t c = Inr t' \<and> state t' = TERMINAL_NORMAL_MODE
             \<and> unat (cursor t') mod unat (width t) = min (unat (n2 t)) (unat (width t) - 1)
             \<and> unat (cursor t') div unat (width t) = min (unat (n1 t)) (unat (height t) - 1)))
       \<and> (state t = TERMINAL_NORMAL_MODE \<and> width t = 80 \<and> height t = 40 \<longrightarrow>
           (\<exists>t'. vt100_update_all t
                   [ESCAPE, byte CHR ''['', byte CHR ''9'', byte CHR ''9'', byte CHR ''9'',
                    byte CHR '';'', byte CHR ''9'', byte CHR ''9'', byte CHR ''9'', byte CHR ''H'']
                 = Inr t'
             \<and> unat (cursor t') mod 80 = 79 \<and> unat (cursor t') div 80 = 39)
         \<and> (\<exists>t'. vt100_update_all t [ESCAPE, byte CHR ''['', byte CHR '';'', byte CHR ''H'']
                 = Inr t'
             \<and> unat (cursor t') mod 80 = 1 \<and> unat (cursor t') div 80 = 1))"
proof (intro conjI impI)
  assume "state t = TERMINAL_NUMBER_2 \<and> (c = byte CHR ''H'' \<or> c = byte CHR ''f'')"
  then show "\<exists>t'. vt100_update t c = Inr t' \<and> state t' = TERMINAL_NORMAL_MODE
             \<and> unat (cursor t') mod unat (width t) = min (unat (n2 t)) (unat (width t) - 1)
             \<and> unat (cursor t') div unat (width t) = min (unat (n1 t)) (unat (height t) - 1)"
    using H_step [OF assms(1), of c] by blast
next
  assume a: "state t = TERMINAL_NORMAL_MODE \<and> width t = 80 \<and> height t = 40"
  then show "\<exists>t'. vt100_update_all t
                   [ESCAPE, byte CHR ''['', byte CHR ''9'', byte CHR ''9'', byte CHR ''9'',
                    byte CHR '';'', byte CHR ''9'', byte CHR ''9'', byte CHR ''9'', byte CHR ''H'']
                 = Inr t'
             \<and> unat (cursor t') mod 80 = 79 \<and> unat (cursor t') div 80 = 39"
    using H_999_run [OF assms] by simp
  from a show "\<exists>t'. vt100_update_all t [ESCAPE, byte CHR ''['', byte CHR '';'', byte CHR ''H'']
                 = Inr t'
             \<and> unat (cursor t') mod 80 = 1 \<and> unat (cursor t') div 80 = 1"
    using H_default_run [OF assms] by simp
qed

theorem H_sets_clamped_position_witness:
  "screen_ok (vga_terminal_vt100\<lparr>n1 := 5, n2 := 100, state := TERMINAL_NUMBER_2\<rparr>)
   \<and> cursor_ok (vga_terminal_vt100\<lparr>n1 := 5, n2 := 100, state := TERMINAL_NUMBER_2\<rparr>)
   \<and> state (vga_terminal_vt100\<lparr>n1 := 5, n2 := 100, state := TERMINAL_NUMBER_2\<rparr>) = TERMINAL_NUMBER_2
   \<and> (\<exists>t'. vt100_update (vga_terminal_vt100\<lparr>n1 := 5, n2 := 100, state := TERMINAL_NUMBER_2\<rparr>)
              (byte CHR ''H'') = Inr t'
         \<and> state t' = TERMINAL_NORMAL_MODE
         \<and> unat (cursor t') mod 80 = 79 \<and> unat (cursor t') div 80 = 5)
   \<and> screen_ok vga_terminal_vt100 \<and> cursor_ok vga_terminal_vt100
   \<and> state vga_terminal_vt100 = TERMINAL_NORMAL_MODE \<and> width vga_terminal_vt100 = 80 \<and> height vga_terminal_vt100 = 40
   \<and> (\<exists>t'. vt100_update_all vga_terminal_vt100
              [ESCAPE, byte CHR ''['', byte CHR ''9'', byte CHR ''9'', byte CHR ''9'',
               byte CHR '';'', byte CHR ''9'', byte CHR ''9'', byte CHR ''9'', byte CHR ''H'']
            = Inr t'
         \<and> unat (cursor t') mod 80 = 79 \<and> unat (cursor t') div 80 = 39)
   \<and> (\<exists>t'. vt100_update_all vga_terminal_vt100 [ESCAPE, byte CHR ''['', byte CHR '';'', byte CHR ''H'']
            = Inr t'
         \<and> unat (cursor t') mod 80 = 1 \<and> unat (cursor t') div 80 = 1)"
proof -
  have h1: "screen_ok vga_terminal_vt100"
    by (simp add: screen_ok_def vga_terminal_vt100_def VGA_WIDTH_def VGA_HEIGHT_def
        VT100_MAX_SIZE_def)
  have h2: "cursor_ok vga_terminal_vt100"
    by (simp add: cursor_ok_def vga_terminal_vt100_def VGA_WIDTH_def VGA_HEIGHT_def)
  have h3: "state vga_terminal_vt100 = TERMINAL_NORMAL_MODE \<and> width vga_terminal_vt100 = 80 \<and> height vga_terminal_vt100 = 40"
    by (simp add: vga_terminal_vt100_def VGA_WIDTH_def VGA_HEIGHT_def)
  have g1: "screen_ok (vga_terminal_vt100\<lparr>n1 := 5, n2 := 100, state := TERMINAL_NUMBER_2\<rparr>)"
    using h1 by simp
  have g2: "cursor_ok (vga_terminal_vt100\<lparr>n1 := 5, n2 := 100, state := TERMINAL_NUMBER_2\<rparr>)"
    using h2 by simp
  have g3: "state (vga_terminal_vt100\<lparr>n1 := 5, n2 := 100, state := TERMINAL_NUMBER_2\<rparr>) = TERMINAL_NUMBER_2"
    by simp
  have g4: "width (vga_terminal_vt100\<lparr>n1 := 5, n2 := 100, state := TERMINAL_NUMBER_2\<rparr>) = 80"
    "height (vga_terminal_vt100\<lparr>n1 := 5, n2 := 100, state := TERMINAL_NUMBER_2\<rparr>) = 40"
    using h3 by simp_all
  from H_sets_clamped_position [OF g1 g2, of "byte CHR ''H''"] g3 g4
  have a: "\<exists>t'. vt100_update (vga_terminal_vt100\<lparr>n1 := 5, n2 := 100, state := TERMINAL_NUMBER_2\<rparr>)
              (byte CHR ''H'') = Inr t'
         \<and> state t' = TERMINAL_NORMAL_MODE
         \<and> unat (cursor t') mod 80 = 79 \<and> unat (cursor t') div 80 = 5"
    by simp
  from H_sets_clamped_position [OF h1 h2, of "byte CHR ''H''"] h3 a g1 g2 g3 h1 h2
  show ?thesis by simp
qed

text \<open>
  C7, as amended. A digit that arrives in state \<open>TERMINAL_NUMBER_1\<close> or
  \<open>TERMINAL_NUMBER_2\<close> when \<open>command_index\<close> is above 3 takes the label \<^verbatim>\<open>fail\<close>: the
  parser returns to normal mode and nothing else changes. On a well-formed terminal in
  normal mode the bytes ESC \<open>[\<close> \<open>1\<close> \<open>2\<close> \<open>3\<close> \<open>4\<close> \<open>5\<close> therefore change only
  \<open>n1\<close>, \<open>n2\<close> and \<open>command_index\<close>, and leave the parser in normal mode. A byte \<open>A\<close>
  that follows is processed as a byte of normal mode: it is stored in the glyph array at
  the cursor, the current attribute is stored in the attribute array at the cursor, and
  the cursor advances by one; when the cursor was on the last cell of the screen, the
  clear on overflow then follows, which sets the first \<open>size\<close> cells to spaces with the
  default attribute and the cursor to 0.
\<close>

theorem fifth_digit_fails_the_sequence:
  assumes "screen_ok t" and "cursor_ok t"
  shows "((state t = TERMINAL_NUMBER_1 \<or> state t = TERMINAL_NUMBER_2)
            \<and> command_index t > 3 \<and> isdigit c \<longrightarrow>
           terminal_escape_sequences t c = Inr (- 1, t\<lparr>state := TERMINAL_NORMAL_MODE\<rparr>)
         \<and> vt100_update t c = Inr (t\<lparr>state := TERMINAL_NORMAL_MODE\<rparr>))
       \<and> (state t = TERMINAL_NORMAL_MODE \<longrightarrow>
           vt100_update_all t
             [ESCAPE, byte CHR ''['', byte CHR ''1'', byte CHR ''2'', byte CHR ''3'',
              byte CHR ''4'', byte CHR ''5'']
             = Inr (t\<lparr>n1 := 1234, n2 := 1, command_index := 4\<rparr>)
         \<and> vt100_update_all t
             [ESCAPE, byte CHR ''['', byte CHR ''1'', byte CHR ''2'', byte CHR ''3'',
              byte CHR ''4'', byte CHR ''5'', byte CHR ''A'']
             = vt100_update (t\<lparr>n1 := 1234, n2 := 1, command_index := 4\<rparr>) (byte CHR ''A'')
         \<and> (unat (cursor t) + 1 < unat (size_vt t) \<longrightarrow>
              vt100_update_all t
             [ESCAPE, byte CHR ''['', byte CHR ''1'', byte CHR ''2'', byte CHR ''3'',
              byte CHR ''4'', byte CHR ''5'', byte CHR ''A'']
             = Inr (t\<lparr>cursor := cursor t + 1, n1 := 1234, n2 := 1,
                     attributes := (attributes t)[unat (cursor t) := attribute t],
                     m := (m t)[unat (cursor t) := byte CHR ''A''],
                     command_index := 4\<rparr>)
            \<and> (arrays_ok t \<longrightarrow> ((m t)[unat (cursor t) := byte CHR ''A'']) ! unat (cursor t) = byte CHR ''A''))
         \<and> (unat (cursor t) + 1 = unat (size_vt t) \<and> arrays_ok t \<longrightarrow>
              vt100_update_all t
             [ESCAPE, byte CHR ''['', byte CHR ''1'', byte CHR ''2'', byte CHR ''3'',
              byte CHR ''4'', byte CHR ''5'', byte CHR ''A'']
             = Inr (t\<lparr>cursor := 0, n1 := 1234, n2 := 1,
                     attributes := replicate (unat (size_vt t)) vt100_default_attribute
                                    @ drop (unat (size_vt t)) (attributes t),
                     m := replicate (unat (size_vt t)) (byte CHR '' '')
                           @ drop (unat (size_vt t)) (m t),
                     command_index := 4\<rparr>)))"
proof -
  have first: "terminal_escape_sequences t c = Inr (- 1, t\<lparr>state := TERMINAL_NORMAL_MODE\<rparr>)
         \<and> vt100_update t c = Inr (t\<lparr>state := TERMINAL_NORMAL_MODE\<rparr>)"
    if a: "(state t = TERMINAL_NUMBER_1 \<or> state t = TERMINAL_NUMBER_2)
            \<and> command_index t > 3 \<and> isdigit c"
  proof -
    from a have e: "terminal_escape_sequences t c = Inr (- 1, t\<lparr>state := TERMINAL_NORMAL_MODE\<rparr>)"
      using fifth_digit_step [of t c] by blast
    from a have "state t \<noteq> TERMINAL_NORMAL_MODE" by auto
    from vt100_update_in_sequence [OF assms(1) this, of c] e show ?thesis
      by (simp add: bind_fault_def)
  qed
  let ?s = "t\<lparr>n1 := 1234, n2 := 1, command_index := 4\<rparr>"
  have ok: "screen_ok ?s" "cursor_ok ?s"
    using assms by simp_all
  have second: "vt100_update_all t
             [ESCAPE, byte CHR ''['', byte CHR ''1'', byte CHR ''2'', byte CHR ''3'',
              byte CHR ''4'', byte CHR ''5'']
             = Inr (t\<lparr>n1 := 1234, n2 := 1, command_index := 4\<rparr>)
         \<and> vt100_update_all t
             [ESCAPE, byte CHR ''['', byte CHR ''1'', byte CHR ''2'', byte CHR ''3'',
              byte CHR ''4'', byte CHR ''5'', byte CHR ''A'']
             = vt100_update (t\<lparr>n1 := 1234, n2 := 1, command_index := 4\<rparr>) (byte CHR ''A'')
         \<and> (unat (cursor t) + 1 < unat (size_vt t) \<longrightarrow>
              vt100_update_all t
             [ESCAPE, byte CHR ''['', byte CHR ''1'', byte CHR ''2'', byte CHR ''3'',
              byte CHR ''4'', byte CHR ''5'', byte CHR ''A'']
             = Inr (t\<lparr>cursor := cursor t + 1, n1 := 1234, n2 := 1,
                     attributes := (attributes t)[unat (cursor t) := attribute t],
                     m := (m t)[unat (cursor t) := byte CHR ''A''],
                     command_index := 4\<rparr>)
            \<and> (arrays_ok t \<longrightarrow> ((m t)[unat (cursor t) := byte CHR ''A'']) ! unat (cursor t) = byte CHR ''A''))
         \<and> (unat (cursor t) + 1 = unat (size_vt t) \<and> arrays_ok t \<longrightarrow>
              vt100_update_all t
             [ESCAPE, byte CHR ''['', byte CHR ''1'', byte CHR ''2'', byte CHR ''3'',
              byte CHR ''4'', byte CHR ''5'', byte CHR ''A'']
             = Inr (t\<lparr>cursor := 0, n1 := 1234, n2 := 1,
                     attributes := replicate (unat (size_vt t)) vt100_default_attribute
                                    @ drop (unat (size_vt t)) (attributes t),
                     m := replicate (unat (size_vt t)) (byte CHR '' '')
                           @ drop (unat (size_vt t)) (m t),
                     command_index := 4\<rparr>))"
    if n: "state t = TERMINAL_NORMAL_MODE"
  proof -
    have r: "vt100_update_all t
             [ESCAPE, byte CHR ''['', byte CHR ''1'', byte CHR ''2'', byte CHR ''3'',
              byte CHR ''4'', byte CHR ''5'']
             = Inr (t\<lparr>n1 := 1234, n2 := 1, command_index := 4\<rparr>)"
      by (rule fifth_digit_run [OF assms n])
    have "vt100_update_all t
             ([ESCAPE, byte CHR ''['', byte CHR ''1'', byte CHR ''2'', byte CHR ''3'',
              byte CHR ''4'', byte CHR ''5''] @ [byte CHR ''A''])
             = vt100_update ?s (byte CHR ''A'')"
      unfolding vt100_update_all_snoc r by (simp add: bind_fault_def)
    then have a: "vt100_update_all t
             [ESCAPE, byte CHR ''['', byte CHR ''1'', byte CHR ''2'', byte CHR ''3'',
              byte CHR ''4'', byte CHR ''5'', byte CHR ''A'']
             = vt100_update (t\<lparr>n1 := 1234, n2 := 1, command_index := 4\<rparr>) (byte CHR ''A'')"
      by simp
    have ns: "state ?s = TERMINAL_NORMAL_MODE" using n by simp
    have i: "vt100_update_all t
             [ESCAPE, byte CHR ''['', byte CHR ''1'', byte CHR ''2'', byte CHR ''3'',
              byte CHR ''4'', byte CHR ''5'', byte CHR ''A'']
             = Inr (t\<lparr>cursor := cursor t + 1, n1 := 1234, n2 := 1,
                     attributes := (attributes t)[unat (cursor t) := attribute t],
                     m := (m t)[unat (cursor t) := byte CHR ''A''],
                     command_index := 4\<rparr>)"
      if room: "unat (cursor t) + 1 < unat (size_vt t)"
    proof -
      from room have "unat (cursor ?s) + 1 < unat (size_vt ?s)" by simp
      from store_A_inside [OF ok ns this] a show ?thesis by simp
    qed
    have g: "((m t)[unat (cursor t) := byte CHR ''A'']) ! unat (cursor t) = byte CHR ''A''" if arr: "arrays_ok t"
    proof -
      have "unat (cursor t) < length (m t)"
        using cursor_lt_max [OF assms] arr by (simp add: arrays_ok_def VT100_MAX_SIZE_def)
      then show ?thesis by simp
    qed
    have l: "vt100_update_all t
             [ESCAPE, byte CHR ''['', byte CHR ''1'', byte CHR ''2'', byte CHR ''3'',
              byte CHR ''4'', byte CHR ''5'', byte CHR ''A'']
             = Inr (t\<lparr>cursor := 0, n1 := 1234, n2 := 1,
                     attributes := replicate (unat (size_vt t)) vt100_default_attribute
                                    @ drop (unat (size_vt t)) (attributes t),
                     m := replicate (unat (size_vt t)) (byte CHR '' '')
                           @ drop (unat (size_vt t)) (m t),
                     command_index := 4\<rparr>)"
      if last: "unat (cursor t) + 1 = unat (size_vt t) \<and> arrays_ok t"
    proof -
      from last have "unat (cursor ?s) + 1 = unat (size_vt ?s)" and "arrays_ok ?s"
        by (simp_all add: arrays_ok_def)
      from store_A_last_cell [OF ok ns this] a show ?thesis by simp
    qed
    from r a i g l show ?thesis by blast
  qed
  from first second show ?thesis by blast
qed

theorem fifth_digit_fails_the_sequence_witness:
  "screen_ok (vga_terminal_vt100\<lparr>n1 := 1234, state := TERMINAL_NUMBER_1, command_index := 4\<rparr>)
   \<and> cursor_ok (vga_terminal_vt100\<lparr>n1 := 1234, state := TERMINAL_NUMBER_1, command_index := 4\<rparr>)
   \<and> state (vga_terminal_vt100\<lparr>n1 := 1234, state := TERMINAL_NUMBER_1, command_index := 4\<rparr>) = TERMINAL_NUMBER_1
   \<and> command_index (vga_terminal_vt100\<lparr>n1 := 1234, state := TERMINAL_NUMBER_1, command_index := 4\<rparr>) > 3
   \<and> isdigit (byte CHR ''5'')
   \<and> vt100_update (vga_terminal_vt100\<lparr>n1 := 1234, state := TERMINAL_NUMBER_1, command_index := 4\<rparr>) (byte CHR ''5'') = Inr ((vga_terminal_vt100\<lparr>n1 := 1234, state := TERMINAL_NUMBER_1, command_index := 4\<rparr>)\<lparr>state := TERMINAL_NORMAL_MODE\<rparr>)
   \<and> screen_ok vga_terminal_vt100 \<and> cursor_ok vga_terminal_vt100 \<and> state vga_terminal_vt100 = TERMINAL_NORMAL_MODE
   \<and> unat (cursor vga_terminal_vt100) + 1 < unat (size_vt vga_terminal_vt100) \<and> arrays_ok vga_terminal_vt100
   \<and> vt100_update_all vga_terminal_vt100
             [ESCAPE, byte CHR ''['', byte CHR ''1'', byte CHR ''2'', byte CHR ''3'',
              byte CHR ''4'', byte CHR ''5'']
             = Inr (vga_terminal_vt100\<lparr>n1 := 1234, n2 := 1, command_index := 4\<rparr>)
   \<and> vt100_update_all vga_terminal_vt100
             [ESCAPE, byte CHR ''['', byte CHR ''1'', byte CHR ''2'', byte CHR ''3'',
              byte CHR ''4'', byte CHR ''5'', byte CHR ''A'']
             = Inr (vga_terminal_vt100\<lparr>cursor := cursor vga_terminal_vt100 + 1, n1 := 1234, n2 := 1,
                     attributes := (attributes vga_terminal_vt100)[unat (cursor vga_terminal_vt100) := attribute vga_terminal_vt100],
                     m := (m vga_terminal_vt100)[unat (cursor vga_terminal_vt100) := byte CHR ''A''],
                     command_index := 4\<rparr>)
   \<and> ((m vga_terminal_vt100)[unat (cursor vga_terminal_vt100) := byte CHR ''A'']) ! unat (cursor vga_terminal_vt100) = byte CHR ''A''
   \<and> screen_ok (vga_terminal_vt100\<lparr>cursor := 3199\<rparr>) \<and> cursor_ok (vga_terminal_vt100\<lparr>cursor := 3199\<rparr>) \<and> state (vga_terminal_vt100\<lparr>cursor := 3199\<rparr>) = TERMINAL_NORMAL_MODE
   \<and> unat (cursor (vga_terminal_vt100\<lparr>cursor := 3199\<rparr>)) + 1 = unat (size_vt (vga_terminal_vt100\<lparr>cursor := 3199\<rparr>)) \<and> arrays_ok (vga_terminal_vt100\<lparr>cursor := 3199\<rparr>)
   \<and> vt100_update_all (vga_terminal_vt100\<lparr>cursor := 3199\<rparr>)
             [ESCAPE, byte CHR ''['', byte CHR ''1'', byte CHR ''2'', byte CHR ''3'',
              byte CHR ''4'', byte CHR ''5'', byte CHR ''A'']
             = Inr ((vga_terminal_vt100\<lparr>cursor := 3199\<rparr>)\<lparr>cursor := 0, n1 := 1234, n2 := 1,
                     attributes := replicate (unat (size_vt (vga_terminal_vt100\<lparr>cursor := 3199\<rparr>))) vt100_default_attribute
                                    @ drop (unat (size_vt (vga_terminal_vt100\<lparr>cursor := 3199\<rparr>))) (attributes (vga_terminal_vt100\<lparr>cursor := 3199\<rparr>)),
                     m := replicate (unat (size_vt (vga_terminal_vt100\<lparr>cursor := 3199\<rparr>))) (byte CHR '' '')
                           @ drop (unat (size_vt (vga_terminal_vt100\<lparr>cursor := 3199\<rparr>))) (m (vga_terminal_vt100\<lparr>cursor := 3199\<rparr>)),
                     command_index := 4\<rparr>)"
proof -
  have h1: "screen_ok vga_terminal_vt100"
    by (simp add: screen_ok_def vga_terminal_vt100_def VGA_WIDTH_def VGA_HEIGHT_def
        VT100_MAX_SIZE_def)
  have h2: "cursor_ok vga_terminal_vt100"
    by (simp add: cursor_ok_def vga_terminal_vt100_def VGA_WIDTH_def VGA_HEIGHT_def)
  have h3: "state vga_terminal_vt100 = TERMINAL_NORMAL_MODE"
    by (simp add: vga_terminal_vt100_def)
  have h4: "unat (cursor vga_terminal_vt100) + 1 < unat (size_vt vga_terminal_vt100)"
    by (simp add: vga_terminal_vt100_def VGA_WIDTH_def VGA_HEIGHT_def)
  have h5: "arrays_ok vga_terminal_vt100"
    by (simp add: arrays_ok_def vga_terminal_vt100_def)
  have g1: "screen_ok (vga_terminal_vt100\<lparr>n1 := 1234, state := TERMINAL_NUMBER_1, command_index := 4\<rparr>)"
    using h1 by simp
  have g2: "cursor_ok (vga_terminal_vt100\<lparr>n1 := 1234, state := TERMINAL_NUMBER_1, command_index := 4\<rparr>)"
    using h2 by simp
  have g3: "state (vga_terminal_vt100\<lparr>n1 := 1234, state := TERMINAL_NUMBER_1, command_index := 4\<rparr>) = TERMINAL_NUMBER_1"
    and g4: "command_index (vga_terminal_vt100\<lparr>n1 := 1234, state := TERMINAL_NUMBER_1, command_index := 4\<rparr>) > 3"
    and g5: "isdigit (byte CHR ''5'')"
    by (simp_all add: isdigit_def)
  have w1: "screen_ok (vga_terminal_vt100\<lparr>cursor := 3199\<rparr>)"
    using h1 by simp
  have w2: "cursor_ok (vga_terminal_vt100\<lparr>cursor := 3199\<rparr>)"
    by (simp add: cursor_ok_def vga_terminal_vt100_def VGA_WIDTH_def VGA_HEIGHT_def)
  have w3: "state (vga_terminal_vt100\<lparr>cursor := 3199\<rparr>) = TERMINAL_NORMAL_MODE"
    by (simp add: vga_terminal_vt100_def)
  have w4: "unat (cursor (vga_terminal_vt100\<lparr>cursor := 3199\<rparr>)) + 1 = unat (size_vt (vga_terminal_vt100\<lparr>cursor := 3199\<rparr>))"
    by (simp add: vga_terminal_vt100_def VGA_WIDTH_def VGA_HEIGHT_def)
  have w5: "arrays_ok (vga_terminal_vt100\<lparr>cursor := 3199\<rparr>)"
    by (simp add: arrays_ok_def vga_terminal_vt100_def)
  from fifth_digit_fails_the_sequence [OF g1 g2, of "byte CHR ''5''"] g3 g4 g5
  have a: "vt100_update (vga_terminal_vt100\<lparr>n1 := 1234, state := TERMINAL_NUMBER_1, command_index := 4\<rparr>) (byte CHR ''5'') = Inr ((vga_terminal_vt100\<lparr>n1 := 1234, state := TERMINAL_NUMBER_1, command_index := 4\<rparr>)\<lparr>state := TERMINAL_NORMAL_MODE\<rparr>)"
    by blast
  from fifth_digit_fails_the_sequence [OF h1 h2, of "byte CHR ''5''"] h3 h4 h5
  have b: "vt100_update_all vga_terminal_vt100
             [ESCAPE, byte CHR ''['', byte CHR ''1'', byte CHR ''2'', byte CHR ''3'',
              byte CHR ''4'', byte CHR ''5'']
             = Inr (vga_terminal_vt100\<lparr>n1 := 1234, n2 := 1, command_index := 4\<rparr>)"
    and c: "vt100_update_all vga_terminal_vt100
             [ESCAPE, byte CHR ''['', byte CHR ''1'', byte CHR ''2'', byte CHR ''3'',
              byte CHR ''4'', byte CHR ''5'', byte CHR ''A'']
             = Inr (vga_terminal_vt100\<lparr>cursor := cursor vga_terminal_vt100 + 1, n1 := 1234, n2 := 1,
                     attributes := (attributes vga_terminal_vt100)[unat (cursor vga_terminal_vt100) := attribute vga_terminal_vt100],
                     m := (m vga_terminal_vt100)[unat (cursor vga_terminal_vt100) := byte CHR ''A''],
                     command_index := 4\<rparr>)"
    and d: "((m vga_terminal_vt100)[unat (cursor vga_terminal_vt100) := byte CHR ''A'']) ! unat (cursor vga_terminal_vt100) = byte CHR ''A''"
    by blast+
  from fifth_digit_fails_the_sequence [OF w1 w2, of "byte CHR ''5''"] w3 w4 w5
  have e: "vt100_update_all (vga_terminal_vt100\<lparr>cursor := 3199\<rparr>)
             [ESCAPE, byte CHR ''['', byte CHR ''1'', byte CHR ''2'', byte CHR ''3'',
              byte CHR ''4'', byte CHR ''5'', byte CHR ''A'']
             = Inr ((vga_terminal_vt100\<lparr>cursor := 3199\<rparr>)\<lparr>cursor := 0, n1 := 1234, n2 := 1,
                     attributes := replicate (unat (size_vt (vga_terminal_vt100\<lparr>cursor := 3199\<rparr>))) vt100_default_attribute
                                    @ drop (unat (size_vt (vga_terminal_vt100\<lparr>cursor := 3199\<rparr>))) (attributes (vga_terminal_vt100\<lparr>cursor := 3199\<rparr>)),
                     m := replicate (unat (size_vt (vga_terminal_vt100\<lparr>cursor := 3199\<rparr>))) (byte CHR '' '')
                           @ drop (unat (size_vt (vga_terminal_vt100\<lparr>cursor := 3199\<rparr>))) (m (vga_terminal_vt100\<lparr>cursor := 3199\<rparr>)),
                     command_index := 4\<rparr>)"
    by blast
  from a b c d e g1 g2 g3 g4 g5 h1 h2 h3 h4 h5 w1 w2 w3 w4 w5 show ?thesis by blast
qed

text \<open>
  C7, as stated, fails: on the VGA terminal the bytes ESC \<open>[\<close> \<open>1\<close> \<open>2\<close> \<open>3\<close> \<open>4\<close> \<open>5\<close>
  \<open>A\<close> change both the cursor and the glyph array, because the \<open>A\<close> arrives in normal
  mode.
\<close>

theorem fifth_digit_then_A_counterexample:
  "map_sum id cursor
     (vga_terminal_run [ESCAPE, byte CHR ''['', byte CHR ''1'', byte CHR ''2'', byte CHR ''3'',
        byte CHR ''4'', byte CHR ''5'', byte CHR ''A''])
    \<noteq> map_sum id cursor (vga_terminal_run [])
   \<and> map_sum id m
     (vga_terminal_run [ESCAPE, byte CHR ''['', byte CHR ''1'', byte CHR ''2'', byte CHR ''3'',
        byte CHR ''4'', byte CHR ''5'', byte CHR ''A''])
    \<noteq> map_sum id m (vga_terminal_run [])"
  by (simp add: eval_defs replicate_update_0_neq)

text \<open>
  C8. On a well-formed terminal in normal mode, the bytes ESC \<open>[\<close> \<open>s\<close> ESC \<open>[\<close> \<open>n\<close>
  leave the cursor where it was before the \<open>s\<close>.
\<close>

theorem save_then_restore_keeps_cursor:
  assumes "screen_ok t" and "cursor_ok t" and "state t = TERMINAL_NORMAL_MODE"
  shows "\<exists>t'. vt100_update_all t
                [ESCAPE, byte CHR ''['', byte CHR ''s'', ESCAPE, byte CHR ''['', byte CHR ''n'']
              = Inr t'
           \<and> cursor t' = cursor t \<and> cursor_saved t' = cursor t
           \<and> state t' = TERMINAL_NORMAL_MODE"
  using save_restore_run [OF assms] assms(3) by simp

theorem save_then_restore_keeps_cursor_witness:
  "screen_ok (vga_terminal_vt100\<lparr>cursor := 1234\<rparr>) \<and> cursor_ok (vga_terminal_vt100\<lparr>cursor := 1234\<rparr>)
   \<and> state (vga_terminal_vt100\<lparr>cursor := 1234\<rparr>) = TERMINAL_NORMAL_MODE
   \<and> (\<exists>t'. vt100_update_all (vga_terminal_vt100\<lparr>cursor := 1234\<rparr>)
              [ESCAPE, byte CHR ''['', byte CHR ''s'', ESCAPE, byte CHR ''['', byte CHR ''n'']
            = Inr t'
         \<and> cursor t' = 1234 \<and> cursor_saved t' = 1234 \<and> state t' = TERMINAL_NORMAL_MODE)"
proof -
  have h1: "screen_ok (vga_terminal_vt100\<lparr>cursor := 1234\<rparr>)"
    by (simp add: screen_ok_def vga_terminal_vt100_def VGA_WIDTH_def VGA_HEIGHT_def
        VT100_MAX_SIZE_def)
  have h2: "cursor_ok (vga_terminal_vt100\<lparr>cursor := 1234\<rparr>)"
    by (simp add: cursor_ok_def vga_terminal_vt100_def VGA_WIDTH_def VGA_HEIGHT_def)
  have h3: "state (vga_terminal_vt100\<lparr>cursor := 1234\<rparr>) = TERMINAL_NORMAL_MODE"
    by (simp add: vga_terminal_vt100_def)
  from save_then_restore_keeps_cursor [OF h1 h2 h3] h1 h2 h3 show ?thesis by simp
qed

text \<open>
  C5. Let \<open>t\<close> be a well-formed terminal in state \<open>TERMINAL_NUMBER_1\<close>, reached from a
  terminal in normal mode. Then a digit has been supplied (\<open>command_index\<close> is not 0),
  and the byte \<open>J\<close> ends the sequence as follows. With \<open>n1\<close> 2 or 3 the cursor becomes 0
  and the first \<open>size\<close> glyphs become spaces and the first \<open>size\<close> attributes the default
  attribute; with \<open>n1 = 1\<close> the same cells are cleared and the cursor stays; with
  \<open>n1 = 0\<close> the cells before the cursor are cleared and the cursor stays; in these cases
  \<^verbatim>\<open>terminal_escape_sequences\<close> returns 0. With any other \<open>n1\<close> it returns - 1 and
  only the parser state changes. The parser is in normal mode afterwards.
\<close>

theorem J_erases_display:
  assumes "state t0 = TERMINAL_NORMAL_MODE" and "vt100_update_all t0 bs = Inr t"
    and "state t = TERMINAL_NUMBER_1"
    and "screen_ok t" and "cursor_ok t" and "arrays_ok t"
  shows "command_index t \<noteq> 0
       \<and> (\<exists>r t'. terminal_escape_sequences t (byte CHR ''J'') = Inr (r, t')
             \<and> vt100_update t (byte CHR ''J'') = Inr t'
             \<and> state t' = TERMINAL_NORMAL_MODE
             \<and> (n1 t = 2 \<or> n1 t = 3 \<longrightarrow> r = 0 \<and>
                  t' = t\<lparr>cursor := 0, state := TERMINAL_NORMAL_MODE,
                         attributes := replicate (unat (size_vt t)) vt100_default_attribute
                                        @ drop (unat (size_vt t)) (attributes t),
                         m := replicate (unat (size_vt t)) (byte CHR '' '')
                               @ drop (unat (size_vt t)) (m t)\<rparr>)
             \<and> (n1 t = 1 \<longrightarrow> r = 0 \<and>
                  t' = t\<lparr>state := TERMINAL_NORMAL_MODE,
                         attributes := replicate (unat (size_vt t)) vt100_default_attribute
                                        @ drop (unat (size_vt t)) (attributes t),
                         m := replicate (unat (size_vt t)) (byte CHR '' '')
                               @ drop (unat (size_vt t)) (m t)\<rparr>)
             \<and> (n1 t = 0 \<longrightarrow> r = 0 \<and>
                  t' = t\<lparr>state := TERMINAL_NORMAL_MODE,
                         attributes := replicate (unat (cursor t)) vt100_default_attribute
                                        @ drop (unat (cursor t)) (attributes t),
                         m := replicate (unat (cursor t)) (byte CHR '' '')
                               @ drop (unat (cursor t)) (m t)\<rparr>)
             \<and> (n1 t \<noteq> 0 \<and> n1 t \<noteq> 1 \<and> n1 t \<noteq> 2 \<and> n1 t \<noteq> 3 \<longrightarrow> r = - 1 \<and>
                  t' = t\<lparr>state := TERMINAL_NORMAL_MODE\<rparr>))"
proof -
  have ci: "command_index t \<noteq> 0"
    using parser_history_NUMBER_1 [OF parser_history_run [OF assms(1,2)] assms(3)] .
  note j = J_step [OF assms(4,5,6,3) ci]
  have seq: "state t \<noteq> TERMINAL_NORMAL_MODE" using assms(3) by simp
  note u = vt100_update_in_sequence [OF assms(4) seq, of "byte CHR ''J''"]
  have fin: "\<exists>r t'. terminal_escape_sequences t (byte CHR ''J'') = Inr (r, t')
             \<and> vt100_update t (byte CHR ''J'') = Inr t'
             \<and> state t' = TERMINAL_NORMAL_MODE \<and> P r t'"
    if e: "terminal_escape_sequences t (byte CHR ''J'') = Inr (r0, T)"
      and s: "state T = TERMINAL_NORMAL_MODE" and p: "P r0 T" for r0 T P
  proof -
    have "vt100_update t (byte CHR ''J'') = Inr T"
      using s unfolding u e by (cases "r0 = 0") (simp_all add: bind_fault_def)
    with e s p show ?thesis by blast
  qed
  consider "n1 t = 2 \<or> n1 t = 3" | "n1 t = 1" | "n1 t = 0"
    | "n1 t \<noteq> 0 \<and> n1 t \<noteq> 1 \<and> n1 t \<noteq> 2 \<and> n1 t \<noteq> 3"
    by blast
  then have "\<exists>r t'. terminal_escape_sequences t (byte CHR ''J'') = Inr (r, t')
             \<and> vt100_update t (byte CHR ''J'') = Inr t'
             \<and> state t' = TERMINAL_NORMAL_MODE
             \<and> ((n1 t = 2 \<or> n1 t = 3 \<longrightarrow> r = 0 \<and>
                  t' = t\<lparr>cursor := 0, state := TERMINAL_NORMAL_MODE,
                         attributes := replicate (unat (size_vt t)) vt100_default_attribute
                                        @ drop (unat (size_vt t)) (attributes t),
                         m := replicate (unat (size_vt t)) (byte CHR '' '')
                               @ drop (unat (size_vt t)) (m t)\<rparr>)
             \<and> (n1 t = 1 \<longrightarrow> r = 0 \<and>
                  t' = t\<lparr>state := TERMINAL_NORMAL_MODE,
                         attributes := replicate (unat (size_vt t)) vt100_default_attribute
                                        @ drop (unat (size_vt t)) (attributes t),
                         m := replicate (unat (size_vt t)) (byte CHR '' '')
                               @ drop (unat (size_vt t)) (m t)\<rparr>)
             \<and> (n1 t = 0 \<longrightarrow> r = 0 \<and>
                  t' = t\<lparr>state := TERMINAL_NORMAL_MODE,
                         attributes := replicate (unat (cursor t)) vt100_default_attribute
                                        @ drop (unat (cursor t)) (attributes t),
                         m := replicate (unat (cursor t)) (byte CHR '' '')
                               @ drop (unat (cursor t)) (m t)\<rparr>)
             \<and> (n1 t \<noteq> 0 \<and> n1 t \<noteq> 1 \<and> n1 t \<noteq> 2 \<and> n1 t \<noteq> 3 \<longrightarrow> r = - 1 \<and>
                  t' = t\<lparr>state := TERMINAL_NORMAL_MODE\<rparr>))"
  proof cases
    case 1
    with j have e: "terminal_escape_sequences t (byte CHR ''J'') =
             Inr (0, t\<lparr>cursor := 0, state := TERMINAL_NORMAL_MODE,
                       attributes := replicate (unat (size_vt t)) vt100_default_attribute
                                      @ drop (unat (size_vt t)) (attributes t),
                       m := replicate (unat (size_vt t)) (byte CHR '' '')
                             @ drop (unat (size_vt t)) (m t)\<rparr>)"
      by blast
    show ?thesis by (rule fin [OF e]) (use 1 in auto)
  next
    case 2
    with j have e: "terminal_escape_sequences t (byte CHR ''J'') =
             Inr (0, t\<lparr>state := TERMINAL_NORMAL_MODE,
                       attributes := replicate (unat (size_vt t)) vt100_default_attribute
                                      @ drop (unat (size_vt t)) (attributes t),
                       m := replicate (unat (size_vt t)) (byte CHR '' '')
                             @ drop (unat (size_vt t)) (m t)\<rparr>)"
      by blast
    show ?thesis by (rule fin [OF e]) (use 2 in auto)
  next
    case 3
    with j have e: "terminal_escape_sequences t (byte CHR ''J'') =
             Inr (0, t\<lparr>state := TERMINAL_NORMAL_MODE,
                       attributes := replicate (unat (cursor t)) vt100_default_attribute
                                      @ drop (unat (cursor t)) (attributes t),
                       m := replicate (unat (cursor t)) (byte CHR '' '')
                             @ drop (unat (cursor t)) (m t)\<rparr>)"
      by blast
    show ?thesis by (rule fin [OF e]) (use 3 in auto)
  next
    case 4
    with j have e: "terminal_escape_sequences t (byte CHR ''J'') =
             Inr (- 1, t\<lparr>state := TERMINAL_NORMAL_MODE\<rparr>)"
      by blast
    show ?thesis by (rule fin [OF e]) (use 4 in auto)
  qed
  with ci show ?thesis by blast
qed

theorem J_erases_display_witness:
  "state vga_terminal_vt100 = TERMINAL_NORMAL_MODE
   \<and> vt100_update_all vga_terminal_vt100 [ESCAPE, byte CHR ''['', byte CHR ''2''] = Inr (vga_terminal_vt100\<lparr>n1 := 2, state := TERMINAL_NUMBER_1, command_index := 1\<rparr>)
   \<and> vt100_update_all vga_terminal_vt100 [ESCAPE, byte CHR ''['', byte CHR ''1''] = Inr (vga_terminal_vt100\<lparr>n1 := 1, state := TERMINAL_NUMBER_1, command_index := 1\<rparr>)
   \<and> vt100_update_all vga_terminal_vt100 [ESCAPE, byte CHR ''['', byte CHR ''0''] = Inr (vga_terminal_vt100\<lparr>n1 := 0, state := TERMINAL_NUMBER_1, command_index := 1\<rparr>)
   \<and> vt100_update_all vga_terminal_vt100 [ESCAPE, byte CHR ''['', byte CHR ''7''] = Inr (vga_terminal_vt100\<lparr>n1 := 7, state := TERMINAL_NUMBER_1, command_index := 1\<rparr>)
   \<and> state (vga_terminal_vt100\<lparr>n1 := 2, state := TERMINAL_NUMBER_1, command_index := 1\<rparr>) = TERMINAL_NUMBER_1 \<and> screen_ok (vga_terminal_vt100\<lparr>n1 := 2, state := TERMINAL_NUMBER_1, command_index := 1\<rparr>) \<and> cursor_ok (vga_terminal_vt100\<lparr>n1 := 2, state := TERMINAL_NUMBER_1, command_index := 1\<rparr>) \<and> arrays_ok (vga_terminal_vt100\<lparr>n1 := 2, state := TERMINAL_NUMBER_1, command_index := 1\<rparr>)
   \<and> state (vga_terminal_vt100\<lparr>n1 := 1, state := TERMINAL_NUMBER_1, command_index := 1\<rparr>) = TERMINAL_NUMBER_1 \<and> screen_ok (vga_terminal_vt100\<lparr>n1 := 1, state := TERMINAL_NUMBER_1, command_index := 1\<rparr>) \<and> cursor_ok (vga_terminal_vt100\<lparr>n1 := 1, state := TERMINAL_NUMBER_1, command_index := 1\<rparr>) \<and> arrays_ok (vga_terminal_vt100\<lparr>n1 := 1, state := TERMINAL_NUMBER_1, command_index := 1\<rparr>)
   \<and> state (vga_terminal_vt100\<lparr>n1 := 0, state := TERMINAL_NUMBER_1, command_index := 1\<rparr>) = TERMINAL_NUMBER_1 \<and> screen_ok (vga_terminal_vt100\<lparr>n1 := 0, state := TERMINAL_NUMBER_1, command_index := 1\<rparr>) \<and> cursor_ok (vga_terminal_vt100\<lparr>n1 := 0, state := TERMINAL_NUMBER_1, command_index := 1\<rparr>) \<and> arrays_ok (vga_terminal_vt100\<lparr>n1 := 0, state := TERMINAL_NUMBER_1, command_index := 1\<rparr>)
   \<and> state (vga_terminal_vt100\<lparr>n1 := 7, state := TERMINAL_NUMBER_1, command_index := 1\<rparr>) = TERMINAL_NUMBER_1 \<and> screen_ok (vga_terminal_vt100\<lparr>n1 := 7, state := TERMINAL_NUMBER_1, command_index := 1\<rparr>) \<and> cursor_ok (vga_terminal_vt100\<lparr>n1 := 7, state := TERMINAL_NUMBER_1, command_index := 1\<rparr>) \<and> arrays_ok (vga_terminal_vt100\<lparr>n1 := 7, state := TERMINAL_NUMBER_1, command_index := 1\<rparr>)
   \<and> vt100_update (vga_terminal_vt100\<lparr>n1 := 2, state := TERMINAL_NUMBER_1, command_index := 1\<rparr>) (byte CHR ''J'')
       = Inr (vga_terminal_vt100\<lparr>n1 := 2, command_index := 1,
               attributes := replicate 3200 vt100_default_attribute @ replicate 4992 zero_attribute,
               m := replicate 3200 (byte CHR '' '') @ replicate 4992 0\<rparr>)
   \<and> vt100_update (vga_terminal_vt100\<lparr>n1 := 1, state := TERMINAL_NUMBER_1, command_index := 1\<rparr>) (byte CHR ''J'')
       = Inr (vga_terminal_vt100\<lparr>n1 := 1, command_index := 1,
               attributes := replicate 3200 vt100_default_attribute @ replicate 4992 zero_attribute,
               m := replicate 3200 (byte CHR '' '') @ replicate 4992 0\<rparr>)
   \<and> vt100_update (vga_terminal_vt100\<lparr>n1 := 0, state := TERMINAL_NUMBER_1, command_index := 1\<rparr>) (byte CHR ''J'') = Inr (vga_terminal_vt100\<lparr>n1 := 0, command_index := 1\<rparr>)
   \<and> vt100_update (vga_terminal_vt100\<lparr>n1 := 7, state := TERMINAL_NUMBER_1, command_index := 1\<rparr>) (byte CHR ''J'') = Inr (vga_terminal_vt100\<lparr>n1 := 7, command_index := 1\<rparr>)"
proof -
  have h0: "state vga_terminal_vt100 = TERMINAL_NORMAL_MODE"
    by (simp add: vga_terminal_vt100_def)
  have s1: "screen_ok vga_terminal_vt100"
    by (simp add: screen_ok_def vga_terminal_vt100_def VGA_WIDTH_def VGA_HEIGHT_def
        VT100_MAX_SIZE_def)
  have s2: "cursor_ok vga_terminal_vt100"
    by (simp add: cursor_ok_def vga_terminal_vt100_def VGA_WIDTH_def VGA_HEIGHT_def)
  have s3: "arrays_ok vga_terminal_vt100"
    by (simp add: arrays_ok_def vga_terminal_vt100_def)
  have n2: "vga_terminal_vt100\<lparr>n1 := k, n2 := 1, state := S, command_index := 1\<rparr>
      = vga_terminal_vt100\<lparr>n1 := k, state := S, command_index := 1\<rparr>" for k S
    by (simp add: vga_terminal_vt100_def)
  have run: "vt100_update_all vga_terminal_vt100 [ESCAPE, byte CHR ''['', d]
      = Inr (vga_terminal_vt100\<lparr>n1 := digit_value d, state := TERMINAL_NUMBER_1, command_index := 1\<rparr>)"
    if "isdigit d" for d
    using digit_run [OF s1 s2 h0 that] by (simp add: n2)
  have r2: "vt100_update_all vga_terminal_vt100 [ESCAPE, byte CHR ''['', byte CHR ''2''] = Inr (vga_terminal_vt100\<lparr>n1 := 2, state := TERMINAL_NUMBER_1, command_index := 1\<rparr>)"
    and r1: "vt100_update_all vga_terminal_vt100 [ESCAPE, byte CHR ''['', byte CHR ''1''] = Inr (vga_terminal_vt100\<lparr>n1 := 1, state := TERMINAL_NUMBER_1, command_index := 1\<rparr>)"
    and r0: "vt100_update_all vga_terminal_vt100 [ESCAPE, byte CHR ''['', byte CHR ''0''] = Inr (vga_terminal_vt100\<lparr>n1 := 0, state := TERMINAL_NUMBER_1, command_index := 1\<rparr>)"
    and r7: "vt100_update_all vga_terminal_vt100 [ESCAPE, byte CHR ''['', byte CHR ''7''] = Inr (vga_terminal_vt100\<lparr>n1 := 7, state := TERMINAL_NUMBER_1, command_index := 1\<rparr>)"
    using run [of "byte CHR ''2''"] run [of "byte CHR ''1''"] run [of "byte CHR ''0''"]
      run [of "byte CHR ''7''"]
    by (simp_all add: isdigit_def digit_value_def)
  have ok: "state (vga_terminal_vt100\<lparr>n1 := k, state := TERMINAL_NUMBER_1, command_index := 1\<rparr>) = TERMINAL_NUMBER_1"
    "screen_ok (vga_terminal_vt100\<lparr>n1 := k, state := TERMINAL_NUMBER_1, command_index := 1\<rparr>)"
    "cursor_ok (vga_terminal_vt100\<lparr>n1 := k, state := TERMINAL_NUMBER_1, command_index := 1\<rparr>)"
    "arrays_ok (vga_terminal_vt100\<lparr>n1 := k, state := TERMINAL_NUMBER_1, command_index := 1\<rparr>)" for k
    using s1 s2 s3 by (simp_all add: arrays_ok_def)
  have vals: "unat (size_vt vga_terminal_vt100) = 3200" "cursor vga_terminal_vt100 = 0" "attributes vga_terminal_vt100 = replicate 8192 zero_attribute"
    "m vga_terminal_vt100 = replicate 8192 0"
    by (simp_all add: vga_terminal_vt100_def VGA_WIDTH_def VGA_HEIGHT_def VT100_MAX_SIZE_def)
  have same: "vga_terminal_vt100\<lparr>n1 := k, state := TERMINAL_NORMAL_MODE, command_index := 1\<rparr>
      = vga_terminal_vt100\<lparr>n1 := k, command_index := 1\<rparr>" for k
    by (simp add: vga_terminal_vt100_def)
  from J_erases_display [OF h0 r2 ok] vals same
  have j2: "vt100_update (vga_terminal_vt100\<lparr>n1 := 2, state := TERMINAL_NUMBER_1, command_index := 1\<rparr>) (byte CHR ''J'')
       = Inr (vga_terminal_vt100\<lparr>n1 := 2, command_index := 1,
               attributes := replicate 3200 vt100_default_attribute @ replicate 4992 zero_attribute,
               m := replicate 3200 (byte CHR '' '') @ replicate 4992 0\<rparr>)"
    by (auto simp: vga_terminal_vt100_def)
  from J_erases_display [OF h0 r1 ok] vals same
  have j1: "vt100_update (vga_terminal_vt100\<lparr>n1 := 1, state := TERMINAL_NUMBER_1, command_index := 1\<rparr>) (byte CHR ''J'')
       = Inr (vga_terminal_vt100\<lparr>n1 := 1, command_index := 1,
               attributes := replicate 3200 vt100_default_attribute @ replicate 4992 zero_attribute,
               m := replicate 3200 (byte CHR '' '') @ replicate 4992 0\<rparr>)"
    by (auto simp: vga_terminal_vt100_def)
  from J_erases_display [OF h0 r0 ok] vals same
  have j0: "vt100_update (vga_terminal_vt100\<lparr>n1 := 0, state := TERMINAL_NUMBER_1, command_index := 1\<rparr>) (byte CHR ''J'') = Inr (vga_terminal_vt100\<lparr>n1 := 0, command_index := 1\<rparr>)"
    by (auto simp: vga_terminal_vt100_def)
  from J_erases_display [OF h0 r7 ok] vals same
  have j7: "vt100_update (vga_terminal_vt100\<lparr>n1 := 7, state := TERMINAL_NUMBER_1, command_index := 1\<rparr>) (byte CHR ''J'') = Inr (vga_terminal_vt100\<lparr>n1 := 7, command_index := 1\<rparr>)"
    by (auto simp: vga_terminal_vt100_def)
  from h0 r2 r1 r0 r7 ok j2 j1 j0 j7 show ?thesis by simp
qed

text \<open>
  C9, as amended. A queue made by \<^verbatim>\<open>fifo_new\<close> with size \<open>sz \<ge> 2\<close> holds \<open>sz - 1\<close>
  bytes: from the empty queue each of the first \<open>sz - 1\<close> calls of \<^verbatim>\<open>fifo_push\<close>
  returns 1, the queue is then full, and the next call returns 0 and leaves it as it
  is. On any full queue \<^verbatim>\<open>fifo_push\<close> returns 0 and changes nothing, and on any empty
  queue \<^verbatim>\<open>fifo_pop\<close> returns 0 and changes nothing.
\<close>

theorem fifo_holds_size_minus_one:
  assumes "2 \<le> sz" and "length ds = unat sz - 1"
  shows "(\<exists>f. fifo_new_push_all sz ds = Inr (replicate (unat sz - 1) 1, f) \<and> fifo_is_full f
            \<and> fifo_new_push_all sz (ds @ [d]) = Inr (replicate (unat sz - 1) 1 @ [0], f))
       \<and> (fifo_is_full q \<longrightarrow> fifo_push q d = Inr (0, q))
       \<and> (fifo_is_empty q \<longrightarrow> fifo_pop q d = Inr (0, d, q))"
  using fifo_fill [OF assms, of d] fifo_push_full [of q d] fifo_pop_empty [of q d]
  by blast

theorem fifo_holds_size_minus_one_witness:
  "2 \<le> (8 :: size_t) \<and> length [1, 2, 3, 4, 5, 6, 7 :: u8] = unat (8 :: size_t) - 1
   \<and> (\<exists>f. fifo_new_push_all 8 [1, 2, 3, 4, 5, 6, 7] = Inr (replicate 7 1, f) \<and> fifo_is_full f
         \<and> fifo_new_push_all 8 ([1, 2, 3, 4, 5, 6, 7] @ [9]) = Inr (replicate 7 1 @ [0], f))
   \<and> fifo_is_full \<lparr>head = 7, tail = 0, size_fifo = 8, buffer = [1, 2, 3, 4, 5, 6, 7, 0]\<rparr> \<and> fifo_push \<lparr>head = 7, tail = 0, size_fifo = 8, buffer = [1, 2, 3, 4, 5, 6, 7, 0]\<rparr> 9 = Inr (0, \<lparr>head = 7, tail = 0, size_fifo = 8, buffer = [1, 2, 3, 4, 5, 6, 7, 0]\<rparr>)
   \<and> fifo_is_empty \<lparr>head = 0, tail = 0, size_fifo = 8, buffer = replicate 8 0\<rparr> \<and> fifo_pop \<lparr>head = 0, tail = 0, size_fifo = 8, buffer = replicate 8 0\<rparr> 9 = Inr (0, 9, \<lparr>head = 0, tail = 0, size_fifo = 8, buffer = replicate 8 0\<rparr>)"
proof -
  have h1: "2 \<le> (8 :: size_t)" by simp
  have h2: "length [1, 2, 3, 4, 5, 6, 7 :: u8] = unat (8 :: size_t) - 1" by simp
  have h3: "fifo_is_full \<lparr>head = 7, tail = 0, size_fifo = 8, buffer = [1, 2, 3, 4, 5, 6, 7, 0]\<rparr>" by (simp add: fifo_is_full_def)
  have h4: "fifo_is_empty \<lparr>head = 0, tail = 0, size_fifo = 8, buffer = replicate 8 0\<rparr>" by (simp add: fifo_is_empty_def)
  from fifo_holds_size_minus_one [OF h1 h2, of 9 "\<lparr>head = 7, tail = 0, size_fifo = 8, buffer = [1, 2, 3, 4, 5, 6, 7, 0]\<rparr>"] h3
  have a: "(\<exists>f. fifo_new_push_all 8 [1, 2, 3, 4, 5, 6, 7] = Inr (replicate 7 1, f) \<and> fifo_is_full f
         \<and> fifo_new_push_all 8 ([1, 2, 3, 4, 5, 6, 7] @ [9]) = Inr (replicate 7 1 @ [0], f))
     \<and> fifo_push \<lparr>head = 7, tail = 0, size_fifo = 8, buffer = [1, 2, 3, 4, 5, 6, 7, 0]\<rparr> 9 = Inr (0, \<lparr>head = 7, tail = 0, size_fifo = 8, buffer = [1, 2, 3, 4, 5, 6, 7, 0]\<rparr>)"
    by simp
  from fifo_holds_size_minus_one [OF h1 h2, of 9 "\<lparr>head = 0, tail = 0, size_fifo = 8, buffer = replicate 8 0\<rparr>"] h4
  have b: "fifo_pop \<lparr>head = 0, tail = 0, size_fifo = 8, buffer = replicate 8 0\<rparr> 9 = Inr (0, 9, \<lparr>head = 0, tail = 0, size_fifo = 8, buffer = replicate 8 0\<rparr>)"
    by simp
  from a b h1 h2 h3 h4 show ?thesis by blast
qed

text \<open>
  C9, as stated, fails: on a queue of size 2 the second of the first two pushes
  returns 0.
\<close>

theorem fifo_two_pushes_counterexample:
  "map_sum id fst (fifo_new_push_all 2 [1, 2]) = Inr [1, 0]"
  by (simp add: fifo_new_push_all_def fifo_new_def fifo_push_def fifo_is_full_def bind_fault_def
      Let_def)

end
